theory Spec2Isabelle
  imports Main "HOL-Library.Word" "HOL-Library.Product_Lexorder" "HOL-Library.Sublist"
begin

section \<open>Data model of the peek cursors (fdbserver/ptxn/TLogPeekCursor.actor.cpp)\<close>

text \<open>
  \<open>Version\<close> is a signed 64-bit counter in the source. The only arithmetic the cursors
  perform on a version is \<open>beginVersion - 1\<close> in the constructor of the leaf cursor;
  everything else is comparison and assignment, so versions are modelled as integers.
  \<open>Subsequence\<close> is an unsigned 32-bit counter that is only compared.
  A \<open>StorageTeamID\<close> is an opaque ordered identifier.
\<close>

type_synonym Version = int
type_synonym Subsequence = "32 word"
type_synonym StorageTeamID = nat

text \<open>
  Modelled from the spec: the constant \<open>invalidVersion\<close> and the \<open>Message\<close> variant are
  declared in headers that are not part of the sources at hand. The cursor only ever
  asks a message whether it is an \<open>EMPTY_VERSION_MESSAGE\<close>; payloads stay abstract.
\<close>

definition invalidVersion :: Version where
  "invalidVersion = - 1"

datatype Message =
    MUTATION_REF string
  | EMPTY_VERSION_MESSAGE
  | LOG_PROTOCOL_MESSAGE
  | SPAN_CONTEXT_MESSAGE string

record VersionSubsequenceMessage =
  version :: Version
  subsequence :: Subsequence
  message :: Message

text \<open>
  Exceptions and fatal conditions of the source, as values. \<open>end_of_stream\<close> and
  \<open>broken_promise\<close> are Flow error codes thrown by the peek RPC; \<open>AssertionFailed\<close>
  stands for a failing \<open>ASSERT\<close> / \<open>UNSTOPPABLE_ASSERT\<close>; \<open>UndefinedBehaviour\<close> stands
  for what the source leaves undefined: reading or advancing an iterator that is already
  at \<open>end()\<close>, taking the front of an empty container, following a pointer to a
  cursor that is no longer owned by the mapper.
\<close>

datatype error = end_of_stream | broken_promise | AssertionFailed | UndefinedBehaviour

record TLogPeekRequest =
  req_debugID :: "nat option"
  req_beginVersion :: Version
  req_endVersion :: Version
  req_storageTeamID :: StorageTeamID

text \<open>
  A peek reply. The serialized payload is represented by the sequence of triples the
  deserializer yields for it; the deserializer of a leaf cursor is always built with
  empty-version reporting switched on, so \<open>EMPTY_VERSION_MESSAGE\<close> entries are part of
  that sequence.
\<close>

record TLogPeekReply =
  reply_data :: "VersionSubsequenceMessage list"
  reply_beginVersion :: Version
  reply_endVersion :: Version
  reply_maxKnownVersion :: Version
  reply_minKnownCommittedVersion :: Version

text \<open>
  The remote TLog, as seen by one call of \<open>peek.getReply\<close>: it answers the request with a
  reply or throws.
\<close>

type_synonym TLogInterface = "TLogPeekRequest \<Rightarrow> error + TLogPeekReply"

subsection \<open>The leaf cursor \<open>StorageTeamPeekCursor\<close>\<close>

text \<open>
  \<open>deserializer\<close> holds the content of the current reply buffer and
  \<open>wrappedDeserializerIter\<close> the position of the iterator in it; the iterator equals
  \<open>deserializer.end()\<close> exactly when the position is the length of the buffer.
\<close>

record StorageTeamPeekCursor =
  storageTeamID :: StorageTeamID
  deserializer :: "VersionSubsequenceMessage list"
  wrappedDeserializerIter :: nat
  beginVersion :: Version
  reportEmptyVersion :: bool
  lastVersion :: Version
  maxKnownVersion :: Version
  minKnownCommittedVersion :: Version

text \<open>
  The constructor: the deserializer starts on header-only data (no triples),
  \<open>lastVersion\<close> is \<open>beginVersion - 1\<close>. The two watermarks are default-initialised
  members of the base class; their initial values are taken as parameters.
\<close>

definition newStorageTeamPeekCursor ::
  "Version \<Rightarrow> StorageTeamID \<Rightarrow> bool \<Rightarrow> Version \<Rightarrow> Version \<Rightarrow> StorageTeamPeekCursor" where
  "newStorageTeamPeekCursor bv tid rpt mkv0 mkcv0 =
     \<lparr> storageTeamID = tid,
       deserializer = [],
       wrappedDeserializerIter = 0,
       beginVersion = bv,
       reportEmptyVersion = rpt,
       lastVersion = bv - 1,
       maxKnownVersion = mkv0,
       minKnownCommittedVersion = mkcv0 \<rparr>"

text \<open>The request built by \<open>details::StorageTeamPeekCursor::peekRemote\<close>.\<close>

definition peekRequest :: "StorageTeamPeekCursor \<Rightarrow> TLogPeekRequest" where
  "peekRequest c =
     \<lparr> req_debugID = None,
       req_beginVersion = lastVersion c,
       req_endVersion = invalidVersion,
       req_storageTeamID = storageTeamID c \<rparr>"

text \<open>
  \<open>details::StorageTeamPeekCursor::peekRemote\<close>, which is all that
  \<open>StorageTeamPeekCursor::remoteMoreAvailableImpl\<close> does. The interface passed in is the
  one picked among the replicas. An exception of the RPC leaves the cursor untouched.
\<close>

definition peekRemote ::
  "TLogInterface \<Rightarrow> StorageTeamPeekCursor \<Rightarrow> (error + bool) \<times> StorageTeamPeekCursor" where
  "peekRemote tlog c =
     (case tlog (peekRequest c) of
        Inl e \<Rightarrow> (Inl e, c)
      | Inr reply \<Rightarrow>
          (let c1 = c\<lparr> deserializer := reply_data reply, wrappedDeserializerIter := 0 \<rparr>
           in if wrappedDeserializerIter c1 = length (deserializer c1) then (Inr False, c1)
              else (Inr True,
                    c1\<lparr> maxKnownVersion := reply_maxKnownVersion reply,
                        minKnownCommittedVersion := reply_minKnownCommittedVersion reply,
                        lastVersion := reply_endVersion reply \<rparr>)))"

text \<open>
  \<open>hasRemainingImpl\<close>: when empty versions are not reported the (mutable) iterator is
  first moved past every \<open>EMPTY_VERSION_MESSAGE\<close>.
\<close>

function skipEmptyVersions :: "VersionSubsequenceMessage list \<Rightarrow> nat \<Rightarrow> nat" where
  "skipEmptyVersions buf i =
     (if i < length buf \<and> message (buf ! i) = EMPTY_VERSION_MESSAGE
      then skipEmptyVersions buf (Suc i) else i)"
  by pat_completeness auto
termination
  by (relation "measure (\<lambda>(buf, i). length buf - i)") auto

declare skipEmptyVersions.simps [simp del]

definition atEnd :: "StorageTeamPeekCursor \<Rightarrow> bool" where
  "atEnd c = (wrappedDeserializerIter c = length (deserializer c))"

definition hasRemainingImpl :: "StorageTeamPeekCursor \<Rightarrow> bool \<times> StorageTeamPeekCursor" where
  "hasRemainingImpl c =
     (let c1 = (if \<not> reportEmptyVersion c
                then c\<lparr> wrappedDeserializerIter :=
                          skipEmptyVersions (deserializer c) (wrappedDeserializerIter c) \<rparr>
                else c)
      in (\<not> atEnd c1, c1))"

definition getImpl :: "StorageTeamPeekCursor \<Rightarrow> error + VersionSubsequenceMessage" where
  "getImpl c =
     (if wrappedDeserializerIter c < length (deserializer c)
      then Inr (deserializer c ! wrappedDeserializerIter c)
      else Inl UndefinedBehaviour)"

definition nextImpl :: "StorageTeamPeekCursor \<Rightarrow> error + StorageTeamPeekCursor" where
  "nextImpl c =
     (if wrappedDeserializerIter c < length (deserializer c)
      then Inr (c\<lparr> wrappedDeserializerIter := Suc (wrappedDeserializerIter c) \<rparr>)
      else Inl UndefinedBehaviour)"

definition resetImpl :: "StorageTeamPeekCursor \<Rightarrow> StorageTeamPeekCursor" where
  "resetImpl c = c\<lparr> wrappedDeserializerIter := 0 \<rparr>"

definition getVersion :: "StorageTeamPeekCursor \<Rightarrow> error + Version" where
  "getVersion c = (case getImpl c of Inl e \<Rightarrow> Inl e | Inr m \<Rightarrow> Inr (version m))"

definition getSubsequence :: "StorageTeamPeekCursor \<Rightarrow> error + Subsequence" where
  "getSubsequence c = (case getImpl c of Inl e \<Rightarrow> Inl e | Inr m \<Rightarrow> Inr (subsequence m))"

text \<open>\<open>VersionSubsequencePeekCursorBase::operatorSpaceship\<close>.\<close>

definition operatorSpaceship ::
  "StorageTeamPeekCursor \<Rightarrow> StorageTeamPeekCursor \<Rightarrow> error + int" where
  "operatorSpaceship this other =
     (case (getVersion this, getVersion other) of
        (Inl e, _) \<Rightarrow> Inl e
      | (_, Inl e) \<Rightarrow> Inl e
      | (Inr thisVersion, Inr otherVersion) \<Rightarrow>
          if thisVersion < otherVersion then Inr (- 1)
          else if thisVersion > otherVersion then Inr 1
          else (case (getSubsequence this, getSubsequence other) of
                  (Inl e, _) \<Rightarrow> Inl e
                | (_, Inl e) \<Rightarrow> Inl e
                | (Inr thisSubsequence, Inr otherSubsequence) \<Rightarrow>
                    if thisSubsequence < otherSubsequence then Inr (- 1)
                    else if thisSubsequence > otherSubsequence then Inr 1
                    else Inr 0))"

text \<open>
  The accessor \<open>isEmptyVersionsIgnored\<close> is declared in the header; it reports the
  negation of the constructor's \<open>reportEmptyVersion\<close> argument.
\<close>

definition isEmptyVersionsIgnored :: "StorageTeamPeekCursor \<Rightarrow> bool" where
  "isEmptyVersionsIgnored c = (\<not> reportEmptyVersion c)"

subsection \<open>\<open>std::set<StorageTeamID>\<close> as a sorted list without repetition\<close>

definition std_set_insert :: "StorageTeamID \<Rightarrow> StorageTeamID list \<Rightarrow> StorageTeamID list" where
  "std_set_insert x xs = (if x \<in> set xs then xs else insort x xs)"

definition std_set_erase :: "StorageTeamID \<Rightarrow> StorageTeamID list \<Rightarrow> StorageTeamID list" where
  "std_set_erase x xs = filter (\<lambda>y. y \<noteq> x) xs"

definition std_set_intersection ::
  "StorageTeamID list \<Rightarrow> StorageTeamID list \<Rightarrow> StorageTeamID list" where
  "std_set_intersection xs ys = filter (\<lambda>x. x \<in> set ys) xs"

definition std_set_difference ::
  "StorageTeamID list \<Rightarrow> StorageTeamID list \<Rightarrow> StorageTeamID list" where
  "std_set_difference xs ys = filter (\<lambda>x. x \<notin> set ys) xs"

subsection \<open>\<open>StorageTeamIDCursorMapper\<close>: the owner of the leaf cursors\<close>

text \<open>
  The mapper owns the leaf cursors; every other reference to a leaf (the entries of the
  cursor containers) is a raw pointer, modelled by the storage team ID under which the
  mapper holds the leaf. Following a pointer is a lookup in the mapper and writing
  through it replaces the leaf there. The mapper is a list of leaves, keyed by their
  own (constant) \<open>storageTeamID\<close>; the list order is the iteration order of the map.
\<close>

type_synonym CursorMapper = "StorageTeamPeekCursor list"

definition isCursorExists :: "CursorMapper \<Rightarrow> StorageTeamID \<Rightarrow> bool" where
  "isCursorExists m t = (t \<in> storageTeamID ` set m)"

fun getCursorPtr :: "CursorMapper \<Rightarrow> StorageTeamID \<Rightarrow> StorageTeamPeekCursor option" where
  "getCursorPtr [] t = None"
| "getCursorPtr (c # cs) t = (if storageTeamID c = t then Some c else getCursorPtr cs t)"

fun putCursor :: "StorageTeamPeekCursor \<Rightarrow> CursorMapper \<Rightarrow> CursorMapper" where
  "putCursor c' [] = []"
| "putCursor c' (c # cs) =
     (if storageTeamID c = storageTeamID c' then c' # cs else c # putCursor c' cs)"

definition mapper_addCursorImpl ::
  "StorageTeamPeekCursor \<Rightarrow> CursorMapper \<Rightarrow> error + CursorMapper" where
  "mapper_addCursorImpl c m =
     (if isCursorExists m (storageTeamID c) then Inl AssertionFailed else Inr (m @ [c]))"

definition mapper_removeCursorImpl :: "StorageTeamID \<Rightarrow> CursorMapper \<Rightarrow> CursorMapper" where
  "mapper_removeCursorImpl t m = filter (\<lambda>c. storageTeamID c \<noteq> t) m"

subsection \<open>The cursor containers\<close>

text \<open>
  \<open>OrderedCursorContainer\<close> keeps a binary heap in a vector with \<open>std::push_heap\<close> and
  \<open>std::pop_heap\<close> under \<open>heapElementComparator\<close>, that is \<open>*e1 > *e2\<close>, the cursor
  comparison being \<open>operatorSpaceship\<close>: a min-heap on the current
  \<open>(version, subsequence)\<close> of the leaves. The standard library's heap is modelled by
  what it specifies: \<open>front()\<close> is a least element and \<open>pop()\<close> removes it. The model
  keeps the entries in ascending order, a new entry going behind the entries that are
  not greater. \<open>UnorderedCursorContainer\<close> is a \<open>std::deque\<close> used as a FIFO queue.
\<close>

datatype ContainerKind = Ordered | Unordered

definition heapElementComparator ::
  "CursorMapper \<Rightarrow> StorageTeamID \<Rightarrow> StorageTeamID \<Rightarrow> error + bool" where
  "heapElementComparator m e1 e2 =
     (case (getCursorPtr m e1, getCursorPtr m e2) of
        (Some c1, Some c2) \<Rightarrow>
          (case operatorSpaceship c1 c2 of Inl e \<Rightarrow> Inl e | Inr r \<Rightarrow> Inr (r > 0))
      | _ \<Rightarrow> Inl UndefinedBehaviour)"

fun pushOrdered ::
  "CursorMapper \<Rightarrow> StorageTeamID \<Rightarrow> StorageTeamID list \<Rightarrow> error + StorageTeamID list" where
  "pushOrdered m p [] = Inr [p]"
| "pushOrdered m p (q # qs) =
     (case heapElementComparator m q p of
        Inl e \<Rightarrow> Inl e
      | Inr True \<Rightarrow> Inr (p # q # qs)
      | Inr False \<Rightarrow>
          (case pushOrdered m p qs of Inl e \<Rightarrow> Inl e | Inr r \<Rightarrow> Inr (q # r)))"

definition pushImpl ::
  "ContainerKind \<Rightarrow> CursorMapper \<Rightarrow> StorageTeamID \<Rightarrow> StorageTeamID list
     \<Rightarrow> error + StorageTeamID list" where
  "pushImpl k m p cont =
     (case k of Ordered \<Rightarrow> pushOrdered m p cont | Unordered \<Rightarrow> Inr (cont @ [p]))"

definition eraseImpl :: "StorageTeamID \<Rightarrow> StorageTeamID list \<Rightarrow> StorageTeamID list" where
  "eraseImpl t cont = filter (\<lambda>p. p \<noteq> t) cont"

subsection \<open>\<open>BroadcastedStorageTeamPeekCursorBase\<close> and its two variants\<close>

record BroadcastedStorageTeamPeekCursor =
  containerKind :: ContainerKind
  cursors :: CursorMapper
  pCursorContainer :: "StorageTeamID list"
  emptyCursorStorageTeamIDs :: "StorageTeamID list"
  retiredCursorStorageTeamIDs :: "StorageTeamID list"
  currentVersion :: Version
  needSnapshot :: bool
  snapshotVersion :: Version
  snapshotContainer :: "StorageTeamID list"
  bcMaxKnownVersion :: Version
  bcMinKnownCommittedVersion :: Version

text \<open>
  A merge cursor without leaves. The initial values of \<open>currentVersion\<close>, of the snapshot
  and of the watermarks are set in the header and are taken as parameters.
\<close>

definition newBroadcastedStorageTeamPeekCursor ::
  "ContainerKind \<Rightarrow> Version \<Rightarrow> Version \<Rightarrow> Version \<Rightarrow> Version
     \<Rightarrow> BroadcastedStorageTeamPeekCursor" where
  "newBroadcastedStorageTeamPeekCursor k cv0 sv0 mkv0 mkcv0 =
     \<lparr> containerKind = k, cursors = [], pCursorContainer = [],
       emptyCursorStorageTeamIDs = [], retiredCursorStorageTeamIDs = [],
       currentVersion = cv0, needSnapshot = False, snapshotVersion = sv0,
       snapshotContainer = [], bcMaxKnownVersion = mkv0, bcMinKnownCommittedVersion = mkcv0 \<rparr>"

text \<open>
  The first loop of \<open>tryFillCursorContainer\<close>: it walks the mapper, records the leaves
  without remaining data in the empty set and compares the versions of the others. The
  arguments after the mapper are the loop's variables \<open>currentVersion\<close>,
  \<open>isFirstElement\<close> and \<open>emptyCursorStorageTeamIDs\<close>.
\<close>

fun walkCursors ::
  "CursorMapper \<Rightarrow> Version \<Rightarrow> bool \<Rightarrow> StorageTeamID list
     \<Rightarrow> error + (CursorMapper \<times> Version \<times> bool \<times> StorageTeamID list)" where
  "walkCursors [] cv isFirstElement es = Inr ([], cv, isFirstElement, es)"
| "walkCursors (c # cs) cv isFirstElement es =
     (case hasRemainingImpl c of
        (False, c1) \<Rightarrow>
          (case walkCursors cs cv isFirstElement (std_set_insert (storageTeamID c1) es) of
             Inl e \<Rightarrow> Inl e
           | Inr (cs', r) \<Rightarrow> Inr (c1 # cs', r))
      | (True, c1) \<Rightarrow>
          (case getVersion c1 of
             Inl e \<Rightarrow> Inl e
           | Inr cursorVersion \<Rightarrow>
               if isFirstElement then
                 (case walkCursors cs cursorVersion False es of
                    Inl e \<Rightarrow> Inl e
                  | Inr (cs', r) \<Rightarrow> Inr (c1 # cs', r))
               else if cv = cursorVersion then
                 (case walkCursors cs cv False es of
                    Inl e \<Rightarrow> Inl e
                  | Inr (cs', r) \<Rightarrow> Inr (c1 # cs', r))
               else Inl AssertionFailed))"

text \<open>
  The last loop of \<open>tryFillCursorContainer\<close>: every leaf that is neither in the empty set
  nor retired-and-consumed is pushed, in the iteration order of the mapper.
\<close>

fun fillContainer ::
  "ContainerKind \<Rightarrow> CursorMapper \<Rightarrow> StorageTeamID list \<Rightarrow> StorageTeamID list
     \<Rightarrow> StorageTeamID list \<Rightarrow> StorageTeamID list \<Rightarrow> error + StorageTeamID list" where
  "fillContainer k m [] es rs cont = Inr cont"
| "fillContainer k m (t # ts) es rs cont =
     (if t \<notin> set es \<and> t \<notin> set rs
      then (case pushImpl k m t cont of
              Inl e \<Rightarrow> Inl e
            | Inr cont' \<Rightarrow> fillContainer k m ts es rs cont')
      else fillContainer k m ts es rs cont)"

definition tryFillCursorContainer ::
  "BroadcastedStorageTeamPeekCursor
     \<Rightarrow> (error + bool) \<times> BroadcastedStorageTeamPeekCursor" where
  "tryFillCursorContainer s =
     (if cursors s = [] then (Inl AssertionFailed, s)
      else if pCursorContainer s \<noteq> [] then (Inl AssertionFailed, s)
      else
        (let lastVersion = currentVersion s;
             numCursors = length (cursors s)
         in case walkCursors (cursors s) invalidVersion True (emptyCursorStorageTeamIDs s) of
              Inl e \<Rightarrow> (Inl e, s)
            | Inr (cs', cv, isFirstElement, es) \<Rightarrow>
                (let retiredAndAllConsumedStorageTeamIDs =
                       std_set_intersection es (retiredCursorStorageTeamIDs s);
                     notRetiredEmptyCursorStorageTeamIDs =
                       std_set_difference es retiredAndAllConsumedStorageTeamIDs;
                     s1 = s\<lparr> cursors := cs',
                             emptyCursorStorageTeamIDs := notRetiredEmptyCursorStorageTeamIDs \<rparr>
                 in if emptyCursorStorageTeamIDs s1 \<noteq> [] then
                      (Inr False,
                       s1\<lparr> currentVersion := (if numCursors = 1 then lastVersion else cv) \<rparr>)
                    else if length (cursors s1) = 0 \<or> cv = invalidVersion then
                      (Inr False, s1\<lparr> currentVersion := cv \<rparr>)
                    else
                      (case fillContainer (containerKind s1) (cursors s1)
                              (map storageTeamID (cursors s1))
                              (emptyCursorStorageTeamIDs s1)
                              retiredAndAllConsumedStorageTeamIDs [] of
                         Inl e \<Rightarrow> (Inl e, s)
                       | Inr cont \<Rightarrow>
                           (Inr True,
                            s1\<lparr> currentVersion := cv, pCursorContainer := cont \<rparr>)))))"

text \<open>\<open>hasRemainingImpl\<close> of the merge cursor, with the lazily taken snapshot.\<close>

definition bc_hasRemainingImpl ::
  "BroadcastedStorageTeamPeekCursor
     \<Rightarrow> (error + bool) \<times> BroadcastedStorageTeamPeekCursor" where
  "bc_hasRemainingImpl s =
     (case (if pCursorContainer s = [] then tryFillCursorContainer s else (Inr True, s)) of
        (Inl e, s1) \<Rightarrow> (Inl e, s1)
      | (Inr tryFillResult, s1) \<Rightarrow>
          (Inr tryFillResult,
           if needSnapshot s1
           then s1\<lparr> needSnapshot := False,
                    snapshotVersion := currentVersion s1,
                    snapshotContainer := pCursorContainer s1 \<rparr>
           else s1))"

text \<open>
  \<open>getImpl\<close> of the merge cursor: \<open>pCursorContainer->front()->get()\<close>. The storage team
  of the front leaf is returned along with the triple; the source returns the triple.
\<close>

definition bc_front ::
  "BroadcastedStorageTeamPeekCursor \<Rightarrow> error + StorageTeamPeekCursor" where
  "bc_front s =
     (case pCursorContainer s of
        [] \<Rightarrow> Inl UndefinedBehaviour
      | p # ps \<Rightarrow>
          (case getCursorPtr (cursors s) p of
             None \<Rightarrow> Inl UndefinedBehaviour
           | Some c \<Rightarrow> Inr c))"

definition bc_getImpl ::
  "BroadcastedStorageTeamPeekCursor \<Rightarrow> error + VersionSubsequenceMessage" where
  "bc_getImpl s = (case bc_front s of Inl e \<Rightarrow> Inl e | Inr c \<Rightarrow> getImpl c)"

definition bc_frontTeam :: "BroadcastedStorageTeamPeekCursor \<Rightarrow> error + StorageTeamID" where
  "bc_frontTeam s = (case bc_front s of Inl e \<Rightarrow> Inl e | Inr c \<Rightarrow> Inr (storageTeamID c))"

text \<open>
  The common prologue of both \<open>nextImpl\<close>: an empty container is refilled, and a refill
  that reports no data fails \<open>ASSERT(false)\<close>.
\<close>

definition ensureFilled ::
  "BroadcastedStorageTeamPeekCursor \<Rightarrow> error + BroadcastedStorageTeamPeekCursor" where
  "ensureFilled s =
     (if pCursorContainer s = [] then
        (case tryFillCursorContainer s of
           (Inl e, s1) \<Rightarrow> Inl e
         | (Inr False, s1) \<Rightarrow> Inl AssertionFailed
         | (Inr True, s1) \<Rightarrow> Inr s1)
      else Inr s)"

text \<open>
  \<open>pConsumedCursor->next()\<close> followed by the test
  \<open>pConsumedCursor->hasRemaining() && pConsumedCursor->getVersion() == currentVersion\<close>.
  The result is the advanced leaf and the value of the test.
\<close>

definition consumeOne ::
  "Version \<Rightarrow> StorageTeamPeekCursor \<Rightarrow> error + (bool \<times> StorageTeamPeekCursor)" where
  "consumeOne cv c =
     (case nextImpl c of
        Inl e \<Rightarrow> Inl e
      | Inr c1 \<Rightarrow>
          (case hasRemainingImpl c1 of
             (False, c2) \<Rightarrow> Inr (False, c2)
           | (True, c2) \<Rightarrow>
               (case getVersion c2 of
                  Inl e \<Rightarrow> Inl e
                | Inr v \<Rightarrow> Inr (v = cv, c2))))"

definition nextImpl_Ordered ::
  "BroadcastedStorageTeamPeekCursor \<Rightarrow> error + BroadcastedStorageTeamPeekCursor" where
  "nextImpl_Ordered s =
     (case ensureFilled s of
        Inl e \<Rightarrow> Inl e
      | Inr s1 \<Rightarrow>
          (case pCursorContainer s1 of
             [] \<Rightarrow> Inl UndefinedBehaviour
           | p # ps \<Rightarrow>
               (case getCursorPtr (cursors s1) p of
                  None \<Rightarrow> Inl UndefinedBehaviour
                | Some c \<Rightarrow>
                    (case consumeOne (currentVersion s1) c of
                       Inl e \<Rightarrow> Inl e
                     | Inr (again, c') \<Rightarrow>
                         (let s2 = s1\<lparr> cursors := putCursor c' (cursors s1),
                                       pCursorContainer := ps \<rparr>
                          in if again then
                               (case pushOrdered (cursors s2) p ps of
                                  Inl e \<Rightarrow> Inl e
                                | Inr cont \<Rightarrow> Inr (s2\<lparr> pCursorContainer := cont \<rparr>))
                             else Inr s2)))))"

definition nextImpl_Unordered ::
  "BroadcastedStorageTeamPeekCursor \<Rightarrow> error + BroadcastedStorageTeamPeekCursor" where
  "nextImpl_Unordered s =
     (case ensureFilled s of
        Inl e \<Rightarrow> Inl e
      | Inr s1 \<Rightarrow>
          (case pCursorContainer s1 of
             [] \<Rightarrow> Inl UndefinedBehaviour
           | p # ps \<Rightarrow>
               (case getCursorPtr (cursors s1) p of
                  None \<Rightarrow> Inl UndefinedBehaviour
                | Some c \<Rightarrow>
                    (case consumeOne (currentVersion s1) c of
                       Inl e \<Rightarrow> Inl e
                     | Inr (again, c') \<Rightarrow>
                         (let s2 = s1\<lparr> cursors := putCursor c' (cursors s1) \<rparr>
                          in if again then Inr s2
                             else Inr (s2\<lparr> pCursorContainer := ps \<rparr>))))))"

definition bc_nextImpl ::
  "BroadcastedStorageTeamPeekCursor \<Rightarrow> error + BroadcastedStorageTeamPeekCursor" where
  "bc_nextImpl s =
     (case containerKind s of
        Ordered \<Rightarrow> nextImpl_Ordered s
      | Unordered \<Rightarrow> nextImpl_Unordered s)"

text \<open>
  \<open>addCursorImpl\<close> and \<open>removeCursor\<close> / \<open>removeCursorImpl\<close> of the broadcast cursor.
\<close>

definition bc_addCursorImpl ::
  "StorageTeamPeekCursor \<Rightarrow> BroadcastedStorageTeamPeekCursor
     \<Rightarrow> error + BroadcastedStorageTeamPeekCursor" where
  "bc_addCursorImpl c s =
     (if isEmptyVersionsIgnored c then Inl AssertionFailed
      else
        (let s1 = s\<lparr> emptyCursorStorageTeamIDs :=
                        std_set_insert (storageTeamID c) (emptyCursorStorageTeamIDs s) \<rparr>
         in case mapper_addCursorImpl c (cursors s1) of
              Inl e \<Rightarrow> Inl e
            | Inr m \<Rightarrow> Inr (s1\<lparr> cursors := m \<rparr>)))"

definition bc_removeCursorImpl ::
  "StorageTeamID \<Rightarrow> BroadcastedStorageTeamPeekCursor \<Rightarrow> BroadcastedStorageTeamPeekCursor" where
  "bc_removeCursorImpl t s =
     s\<lparr> pCursorContainer := eraseImpl t (pCursorContainer s),
        emptyCursorStorageTeamIDs := std_set_erase t (emptyCursorStorageTeamIDs s),
        cursors := mapper_removeCursorImpl t (cursors s) \<rparr>"

definition bc_removeCursor ::
  "StorageTeamID \<Rightarrow> BroadcastedStorageTeamPeekCursor
     \<Rightarrow> error + BroadcastedStorageTeamPeekCursor" where
  "bc_removeCursor t s =
     (if isCursorExists (cursors s) t then Inr (bc_removeCursorImpl t s)
      else Inl AssertionFailed)"

text \<open>
  \<open>resetImpl\<close> of the merge cursor. After the reset of a leaf, the loop
  \<open>while (vsmIter != end() && vsmIter->version < currentVersion) ++vsmIter\<close> runs on the
  leaf's own iterator protocol: the comparison with \<open>end()\<close> is \<open>hasRemaining()\<close>, the
  dereference is \<open>get()\<close> and the increment is \<open>next()\<close>.
\<close>

lemma skipEmptyVersions_ge: "i \<le> skipEmptyVersions buf i"
proof (induction buf i rule: skipEmptyVersions.induct)
  case (1 buf i)
  show ?case
  proof (cases "i < length buf \<and> message (buf ! i) = EMPTY_VERSION_MESSAGE")
    case True
    with 1 have "Suc i \<le> skipEmptyVersions buf (Suc i)" by simp
    with True show ?thesis by (subst skipEmptyVersions.simps) simp
  next
    case False
    then show ?thesis by (subst skipEmptyVersions.simps) auto
  qed
qed

lemma skipEmptyVersions_le: "i \<le> length buf \<Longrightarrow> skipEmptyVersions buf i \<le> length buf"
proof (induction buf i rule: skipEmptyVersions.induct)
  case (1 buf i)
  show ?case
  proof (cases "i < length buf \<and> message (buf ! i) = EMPTY_VERSION_MESSAGE")
    case True
    with 1 have "skipEmptyVersions buf (Suc i) \<le> length buf" by simp
    with True show ?thesis by (subst skipEmptyVersions.simps) simp
  next
    case False
    with 1 show ?thesis by (subst skipEmptyVersions.simps) auto
  qed
qed

definition remainingCount :: "StorageTeamPeekCursor \<Rightarrow> nat" where
  "remainingCount c = length (deserializer c) - wrappedDeserializerIter c"

lemma hasRemainingImpl_remainingCount:
  "hasRemainingImpl c = (b, c1) \<Longrightarrow> remainingCount c1 \<le> remainingCount c"
  using skipEmptyVersions_ge [of "wrappedDeserializerIter c" "deserializer c"]
  by (auto simp: hasRemainingImpl_def remainingCount_def Let_def split: if_splits)

lemma hasRemainingImpl_deserializer:
  "hasRemainingImpl c = (b, c1) \<Longrightarrow> deserializer c1 = deserializer c"
  by (auto simp: hasRemainingImpl_def Let_def split: if_splits)

lemma nextImpl_remainingCount:
  "nextImpl c = Inr c1 \<Longrightarrow> remainingCount c1 < remainingCount c"
  by (auto simp: nextImpl_def remainingCount_def split: if_splits)

function skipToVersion :: "Version \<Rightarrow> StorageTeamPeekCursor \<Rightarrow> error + StorageTeamPeekCursor" where
  "skipToVersion cv c =
     (case hasRemainingImpl c of
        (False, c1) \<Rightarrow> Inr c1
      | (True, c1) \<Rightarrow>
          (case getImpl c1 of
             Inl e \<Rightarrow> Inl e
           | Inr m \<Rightarrow>
               if version m < cv then
                 (case nextImpl c1 of
                    Inl e \<Rightarrow> Inl e
                  | Inr c2 \<Rightarrow> skipToVersion cv c2)
               else Inr c1))"
  by pat_completeness auto
termination
proof (relation "measure (\<lambda>(cv, c). remainingCount c)")
  show "wf (measure (\<lambda>(cv, c). remainingCount c))" by simp
next
  fix cv :: Version and c x1 c1 m c2
  assume "(x1, c1) = hasRemainingImpl c" and "nextImpl c1 = Inr c2"
  then have "remainingCount c1 \<le> remainingCount c" and "remainingCount c2 < remainingCount c1"
    using hasRemainingImpl_remainingCount [of c x1 c1] nextImpl_remainingCount [of c1 c2]
    by simp_all
  then show "((cv, c2), (cv, c)) \<in> measure (\<lambda>(cv, c). remainingCount c)" by simp
qed

declare skipToVersion.simps [simp del]

fun resetCursors ::
  "Version \<Rightarrow> StorageTeamID list \<Rightarrow> CursorMapper \<Rightarrow> error + CursorMapper" where
  "resetCursors cv rs [] = Inr []"
| "resetCursors cv rs (c # cs) =
     (if storageTeamID c \<in> set rs then
        (case resetCursors cv rs cs of Inl e \<Rightarrow> Inl e | Inr cs' \<Rightarrow> Inr (c # cs'))
      else
        (case skipToVersion cv (resetImpl c) of
           Inl e \<Rightarrow> Inl e
         | Inr c' \<Rightarrow>
             (case resetCursors cv rs cs of Inl e \<Rightarrow> Inl e | Inr cs' \<Rightarrow> Inr (c' # cs'))))"

definition bc_resetImpl ::
  "BroadcastedStorageTeamPeekCursor \<Rightarrow> error + BroadcastedStorageTeamPeekCursor" where
  "bc_resetImpl s =
     (if snapshotVersion s = invalidVersion then Inr s
      else
        (let s1 = s\<lparr> currentVersion := snapshotVersion s,
                     pCursorContainer := snapshotContainer s,
                     emptyCursorStorageTeamIDs := [] \<rparr>
         in case resetCursors (currentVersion s1) (retiredCursorStorageTeamIDs s1) (cursors s1) of
              Inl e \<Rightarrow> Inl e
            | Inr cs' \<Rightarrow> Inr (s1\<lparr> cursors := cs' \<rparr>)))"

subsection \<open>Refilling the merge cursor from the remote TLogs\<close>

record PeekSingleCursorResult =
  retrievedData :: bool
  endOfStream :: bool

text \<open>
  \<open>peekSingleCursor\<close>: up to \<open>MERGE_CURSOR_RETRY_TIMES\<close> peeks of one leaf. The remote is
  given by the interface that answers each attempt; the delays between the attempts do
  not change any state. The arguments are the knob, the remote, and the loop variable
  \<open>i\<close>.
\<close>

function peekSingleCursorFrom ::
  "nat \<Rightarrow> (nat \<Rightarrow> TLogInterface) \<Rightarrow> nat \<Rightarrow> StorageTeamPeekCursor
     \<Rightarrow> (error + PeekSingleCursorResult) \<times> StorageTeamPeekCursor" where
  "peekSingleCursorFrom retryTimes remote i c =
     (if i < retryTimes then
        (case peekRemote (remote i) c of
           (Inl e, c1) \<Rightarrow>
             if e = end_of_stream
             then (Inr \<lparr> retrievedData = False, endOfStream = True \<rparr>, c1)
             else (Inl e, c1)
         | (Inr True, c1) \<Rightarrow> (Inr \<lparr> retrievedData = True, endOfStream = False \<rparr>, c1)
         | (Inr False, c1) \<Rightarrow>
             if Suc i = retryTimes
             then (Inr \<lparr> retrievedData = False, endOfStream = False \<rparr>, c1)
             else peekSingleCursorFrom retryTimes remote (Suc i) c1)
      else (Inr \<lparr> retrievedData = False, endOfStream = False \<rparr>, c))"
  by pat_completeness auto
termination
  by (relation "measure (\<lambda>(retryTimes, remote, i, c). retryTimes - i)") auto

declare peekSingleCursorFrom.simps [simp del]

definition peekSingleCursor ::
  "nat \<Rightarrow> (nat \<Rightarrow> TLogInterface) \<Rightarrow> StorageTeamPeekCursor
     \<Rightarrow> (error + PeekSingleCursorResult) \<times> StorageTeamPeekCursor" where
  "peekSingleCursor retryTimes remote c = peekSingleCursorFrom retryTimes remote 0 c"

text \<open>
  The peeks of the leaves named by the empty set. Their tasks run concurrently and are
  joined by \<open>getAll\<close>; the leaves are distinct objects and each task touches its own leaf
  only, so the tasks are run one after the other, in the order of the set. An exception
  of a task other than \<open>end_of_stream\<close> ends \<open>peekRemote\<close>: the tasks that have not
  completed are cancelled, and the leaves of the tasks that have completed keep what
  their peeks wrote. Which tasks complete before the exception is a matter of timing. In
  the model every task runs; a cancelled task is one whose RPC the environment answers
  with an exception, which leaves the leaf as its earlier attempts left it. The exception
  that ends \<open>peekRemote\<close> is that of the first failing task in the order of the set.
\<close>

fun peekCursors ::
  "nat \<Rightarrow> (StorageTeamID \<Rightarrow> nat \<Rightarrow> TLogInterface) \<Rightarrow> StorageTeamID list \<Rightarrow> CursorMapper
     \<Rightarrow> (error + PeekSingleCursorResult list) \<times> CursorMapper" where
  "peekCursors retryTimes remotes [] m = (Inr [], m)"
| "peekCursors retryTimes remotes (t # ts) m =
     (case getCursorPtr m t of
        None \<Rightarrow> (Inl AssertionFailed, m)
      | Some c \<Rightarrow>
          (case peekSingleCursor retryTimes (remotes t) c of
             (r, c1) \<Rightarrow>
               (case peekCursors retryTimes remotes ts (putCursor c1 m) of
                  (rs, m') \<Rightarrow>
                    (case r of
                       Inl e \<Rightarrow> Inl e
                     | Inr x \<Rightarrow> (case rs of Inl e \<Rightarrow> Inl e | Inr xs \<Rightarrow> Inr (x # xs)),
                     m'))))"

text \<open>
  The loop over the results: a timeout keeps the team in the empty set, an end of stream
  retires the team, and what is not a timeout leaves the empty set. The state of the
  loop is \<open>cursorsReady\<close>, the empty set and the retired set.
\<close>

fun applyPeekResults ::
  "(StorageTeamID \<times> PeekSingleCursorResult) list \<Rightarrow> bool \<Rightarrow> StorageTeamID list
     \<Rightarrow> StorageTeamID list \<Rightarrow> error + (bool \<times> StorageTeamID list \<times> StorageTeamID list)" where
  "applyPeekResults [] cursorsReady es rs = Inr (cursorsReady, es, rs)"
| "applyPeekResults ((t, peekResult) # rest) cursorsReady es rs =
     (if \<not> endOfStream peekResult \<and> \<not> retrievedData peekResult
      then applyPeekResults rest False es rs
      else if endOfStream peekResult then
        (if t \<in> set rs then Inl AssertionFailed
         else applyPeekResults rest cursorsReady (std_set_erase t es) (std_set_insert t rs))
      else applyPeekResults rest cursorsReady (std_set_erase t es) rs)"

fun updateWatermarks ::
  "StorageTeamPeekCursor list \<Rightarrow> Version \<times> Version \<Rightarrow> Version \<times> Version" where
  "updateWatermarks [] w = w"
| "updateWatermarks (c # cs) (mkv, mkcv) =
     updateWatermarks cs (max mkv (maxKnownVersion c), max mkcv (minKnownCommittedVersion c))"

text \<open>
  \<open>peekRemote\<close> of the merge cursor. The pointers to the leaves of the empty set are taken
  first (\<open>getCursorPtr\<close> asserts that each leaf exists), then the leaves are peeked. When
  a peek throws, the empty set, the retired set and the watermarks are as before; the
  leaves are as the peeks left them.
\<close>

definition bc_peekRemote ::
  "nat \<Rightarrow> (StorageTeamID \<Rightarrow> nat \<Rightarrow> TLogInterface) \<Rightarrow> BroadcastedStorageTeamPeekCursor
     \<Rightarrow> (error + bool) \<times> BroadcastedStorageTeamPeekCursor" where
  "bc_peekRemote retryTimes remotes s =
     (if emptyCursorStorageTeamIDs s = [] then (Inl end_of_stream, s)
      else
        (let ts = emptyCursorStorageTeamIDs s
         in if \<not> list_all (isCursorExists (cursors s)) ts then (Inl AssertionFailed, s)
            else
              (case peekCursors retryTimes remotes ts (cursors s) of
                 (Inl e, m) \<Rightarrow> (Inl e, s\<lparr> cursors := m \<rparr>)
               | (Inr cursorResults, m) \<Rightarrow>
                   (case applyPeekResults (zip ts cursorResults) True ts
                           (retiredCursorStorageTeamIDs s) of
                      Inl e \<Rightarrow> (Inl e, s\<lparr> cursors := m \<rparr>)
                    | Inr (cursorsReady, es, rs) \<Rightarrow>
                        (let s1 = s\<lparr> cursors := m, emptyCursorStorageTeamIDs := es,
                                      retiredCursorStorageTeamIDs := rs \<rparr>
                         in if \<not> cursorsReady then (Inr False, s1)
                            else
                              (case updateWatermarks
                                      (List.map_filter (getCursorPtr m) ts)
                                      (bcMaxKnownVersion s1, bcMinKnownCommittedVersion s1) of
                                 (mkv, mkcv) \<Rightarrow>
                                   (Inr True,
                                    s1\<lparr> bcMaxKnownVersion := mkv,
                                        bcMinKnownCommittedVersion := mkcv \<rparr>)))))))"

fun removeCursors ::
  "StorageTeamID list \<Rightarrow> BroadcastedStorageTeamPeekCursor
     \<Rightarrow> error + BroadcastedStorageTeamPeekCursor" where
  "removeCursors [] s = Inr s"
| "removeCursors (t # ts) s =
     (case bc_removeCursor t s of Inl e \<Rightarrow> Inl e | Inr s1 \<Rightarrow> removeCursors ts s1)"

definition bc_remoteMoreAvailableImpl ::
  "nat \<Rightarrow> (StorageTeamID \<Rightarrow> nat \<Rightarrow> TLogInterface) \<Rightarrow> BroadcastedStorageTeamPeekCursor
     \<Rightarrow> (error + bool) \<times> BroadcastedStorageTeamPeekCursor" where
  "bc_remoteMoreAvailableImpl retryTimes remotes s =
     (let s1 = s\<lparr> needSnapshot := True \<rparr>
      in case removeCursors (retiredCursorStorageTeamIDs s1) s1 of
           Inl e \<Rightarrow> (Inl e, s1)
         | Inr s2 \<Rightarrow> bc_peekRemote retryTimes remotes (s2\<lparr> retiredCursorStorageTeamIDs := [] \<rparr>))"

subsection \<open>Sequences of operations on the merge cursor\<close>

text \<open>
  The operations a caller can apply to a broadcast merge cursor. A Flow exception of
  \<open>remoteMoreAvailable\<close> (\<open>end_of_stream\<close>, a transport error) is caught by the caller,
  who goes on with the cursor; a failed assertion and undefined behaviour end the run.
\<close>

datatype bc_op =
    OpHasRemaining
  | OpNext
  | OpReset
  | OpAddCursor StorageTeamPeekCursor
  | OpRemoveCursor StorageTeamID
  | OpRemoteMoreAvailable nat "StorageTeamID \<Rightarrow> nat \<Rightarrow> TLogInterface"

definition fatal :: "error \<Rightarrow> bool" where
  "fatal e = (e = AssertionFailed \<or> e = UndefinedBehaviour)"

definition bc_step ::
  "bc_op \<Rightarrow> BroadcastedStorageTeamPeekCursor \<Rightarrow> error + BroadcastedStorageTeamPeekCursor" where
  "bc_step op s =
     (case op of
        OpHasRemaining \<Rightarrow>
          (case bc_hasRemainingImpl s of (Inl e, s1) \<Rightarrow> Inl e | (Inr b, s1) \<Rightarrow> Inr s1)
      | OpNext \<Rightarrow> bc_nextImpl s
      | OpReset \<Rightarrow> bc_resetImpl s
      | OpAddCursor c \<Rightarrow> bc_addCursorImpl c s
      | OpRemoveCursor t \<Rightarrow> bc_removeCursor t s
      | OpRemoteMoreAvailable retryTimes remotes \<Rightarrow>
          (case bc_remoteMoreAvailableImpl retryTimes remotes s of
             (Inl e, s1) \<Rightarrow> if fatal e then Inl e else Inr s1
           | (Inr b, s1) \<Rightarrow> Inr s1))"

fun bc_run ::
  "bc_op list \<Rightarrow> BroadcastedStorageTeamPeekCursor \<Rightarrow> error + BroadcastedStorageTeamPeekCursor" where
  "bc_run [] s = Inr s"
| "bc_run (op # ops) s = (case bc_step op s of Inl e \<Rightarrow> Inl e | Inr s1 \<Rightarrow> bc_run ops s1)"

section \<open>Properties of the leaf cursor\<close>

text \<open>
  C9. A peek of a leaf cursor whose reply deserializes to the empty sequence returns
  false and leaves \<open>lastVersion\<close>, \<open>maxKnownVersion\<close> and \<open>minKnownCommittedVersion\<close> as
  they were; a reply with data returns true, sets \<open>lastVersion\<close> to the reply's
  \<open>endVersion\<close> and takes both watermarks from the reply; an exception of the RPC changes
  nothing at all.
\<close>

theorem peekRemote_frame:
  "(case tlog (peekRequest c) of
      Inl e \<Rightarrow> peekRemote tlog c = (Inl e, c)
    | Inr reply \<Rightarrow>
        (if reply_data reply = [] then
           fst (peekRemote tlog c) = Inr False
           \<and> lastVersion (snd (peekRemote tlog c)) = lastVersion c
           \<and> maxKnownVersion (snd (peekRemote tlog c)) = maxKnownVersion c
           \<and> minKnownCommittedVersion (snd (peekRemote tlog c)) = minKnownCommittedVersion c
         else
           fst (peekRemote tlog c) = Inr True
           \<and> lastVersion (snd (peekRemote tlog c)) = reply_endVersion reply
           \<and> maxKnownVersion (snd (peekRemote tlog c)) = reply_maxKnownVersion reply
           \<and> minKnownCommittedVersion (snd (peekRemote tlog c))
               = reply_minKnownCommittedVersion reply))"
  by (simp add: peekRemote_def Let_def split: sum.split)

text \<open>
  C5. The request of a leaf cursor carries \<open>lastVersion\<close> itself as its begin version,
  not \<open>lastVersion + 1\<close>: a cursor constructed with begin version 1000 first asks for
  version 999, and after a reply with data that ends at version 1005 it asks for 1005.
\<close>

definition reply_1000_1005 :: TLogPeekReply where
  "reply_1000_1005 =
     \<lparr> reply_data = [\<lparr> version = 1000, subsequence = 1, message = MUTATION_REF ''a'' \<rparr>],
       reply_beginVersion = 1000, reply_endVersion = 1005,
       reply_maxKnownVersion = 1005, reply_minKnownCommittedVersion = 1000 \<rparr>"

theorem peekRequest_begins_at_lastVersion:
  "req_beginVersion (peekRequest c) = lastVersion c
   \<and> req_beginVersion (peekRequest (newStorageTeamPeekCursor 1000 7 True 0 0)) = 999
   \<and> req_beginVersion
        (peekRequest (snd (peekRemote (\<lambda>r. Inr reply_1000_1005)
                             (newStorageTeamPeekCursor 1000 7 True 0 0)))) = 1005"
  by (simp add: peekRequest_def newStorageTeamPeekCursor_def peekRemote_def
      reply_1000_1005_def Let_def)

section \<open>Properties of the merge cursor: watermarks\<close>

lemma tryFillCursorContainer_watermarks:
  "bcMaxKnownVersion (snd (tryFillCursorContainer s)) = bcMaxKnownVersion s
   \<and> bcMinKnownCommittedVersion (snd (tryFillCursorContainer s)) = bcMinKnownCommittedVersion s"
  by (simp add: tryFillCursorContainer_def Let_def split: sum.split prod.split)

lemma bc_hasRemainingImpl_watermarks:
  "bcMaxKnownVersion (snd (bc_hasRemainingImpl s)) = bcMaxKnownVersion s
   \<and> bcMinKnownCommittedVersion (snd (bc_hasRemainingImpl s)) = bcMinKnownCommittedVersion s"
  using tryFillCursorContainer_watermarks [of s]
  by (auto simp: bc_hasRemainingImpl_def split: sum.split prod.split)

lemma ensureFilled_watermarks:
  "ensureFilled s = Inr s1 \<Longrightarrow>
     bcMaxKnownVersion s1 = bcMaxKnownVersion s
     \<and> bcMinKnownCommittedVersion s1 = bcMinKnownCommittedVersion s"
  using tryFillCursorContainer_watermarks [of s]
  by (auto simp: ensureFilled_def split: if_splits sum.splits prod.splits bool.splits)

lemma bc_nextImpl_watermarks:
  "bc_nextImpl s = Inr s' \<Longrightarrow>
     bcMaxKnownVersion s' = bcMaxKnownVersion s
     \<and> bcMinKnownCommittedVersion s' = bcMinKnownCommittedVersion s"
  by (auto simp: bc_nextImpl_def nextImpl_Ordered_def nextImpl_Unordered_def Let_def
      dest!: ensureFilled_watermarks
      split: ContainerKind.splits sum.splits list.splits option.splits prod.splits if_splits)

lemma bc_resetImpl_watermarks:
  "bc_resetImpl s = Inr s' \<Longrightarrow>
     bcMaxKnownVersion s' = bcMaxKnownVersion s
     \<and> bcMinKnownCommittedVersion s' = bcMinKnownCommittedVersion s"
  by (auto simp: bc_resetImpl_def Let_def split: if_splits sum.splits)

lemma bc_addCursorImpl_watermarks:
  "bc_addCursorImpl c s = Inr s' \<Longrightarrow>
     bcMaxKnownVersion s' = bcMaxKnownVersion s
     \<and> bcMinKnownCommittedVersion s' = bcMinKnownCommittedVersion s"
  by (auto simp: bc_addCursorImpl_def Let_def split: if_splits sum.splits)

lemma bc_removeCursor_watermarks:
  "bc_removeCursor t s = Inr s' \<Longrightarrow>
     bcMaxKnownVersion s' = bcMaxKnownVersion s
     \<and> bcMinKnownCommittedVersion s' = bcMinKnownCommittedVersion s"
  by (auto simp: bc_removeCursor_def bc_removeCursorImpl_def split: if_splits)

lemma removeCursors_watermarks:
  "removeCursors ts s = Inr s' \<Longrightarrow>
     bcMaxKnownVersion s' = bcMaxKnownVersion s
     \<and> bcMinKnownCommittedVersion s' = bcMinKnownCommittedVersion s"
proof (induction ts arbitrary: s)
  case Nil
  then show ?case by simp
next
  case (Cons t ts)
  then show ?case
    by (auto split: sum.splits dest!: bc_removeCursor_watermarks)
qed

lemma updateWatermarks_ge:
  "updateWatermarks cs (a, b) = (a', b') \<Longrightarrow> a \<le> a' \<and> b \<le> b'"
proof (induction cs arbitrary: a b)
  case Nil
  then show ?case by simp
next
  case (Cons c cs)
  from Cons.prems have
    "updateWatermarks cs (max a (maxKnownVersion c), max b (minKnownCommittedVersion c)) = (a', b')"
    by simp
  from Cons.IH [OF this] show ?case by simp
qed

lemma bc_peekRemote_watermarks:
  "bcMaxKnownVersion s \<le> bcMaxKnownVersion (snd (bc_peekRemote n remotes s))
   \<and> bcMinKnownCommittedVersion s
       \<le> bcMinKnownCommittedVersion (snd (bc_peekRemote n remotes s))"
  by (auto simp: bc_peekRemote_def Let_def split: sum.split prod.split
      dest!: updateWatermarks_ge)

lemma bc_remoteMoreAvailableImpl_watermarks:
  "bcMaxKnownVersion s \<le> bcMaxKnownVersion (snd (bc_remoteMoreAvailableImpl n remotes s))
   \<and> bcMinKnownCommittedVersion s
       \<le> bcMinKnownCommittedVersion (snd (bc_remoteMoreAvailableImpl n remotes s))"
proof (cases "removeCursors (retiredCursorStorageTeamIDs s) (s\<lparr> needSnapshot := True \<rparr>)")
  case (Inl e)
  then show ?thesis by (simp add: bc_remoteMoreAvailableImpl_def Let_def)
next
  case (Inr s2)
  from removeCursors_watermarks [OF Inr]
  have eq: "bcMaxKnownVersion s2 = bcMaxKnownVersion s"
    "bcMinKnownCommittedVersion s2 = bcMinKnownCommittedVersion s" by simp_all
  from bc_peekRemote_watermarks [of "s2\<lparr> retiredCursorStorageTeamIDs := [] \<rparr>" n remotes] eq Inr
  show ?thesis by (simp add: bc_remoteMoreAvailableImpl_def Let_def)
qed

lemma bc_step_watermarks:
  "bc_step op s = Inr s' \<Longrightarrow>
     bcMaxKnownVersion s \<le> bcMaxKnownVersion s'
     \<and> bcMinKnownCommittedVersion s \<le> bcMinKnownCommittedVersion s'"
proof (cases op)
  case OpHasRemaining
  assume "bc_step op s = Inr s'"
  with OpHasRemaining bc_hasRemainingImpl_watermarks [of s] show ?thesis
    by (auto simp: bc_step_def split: prod.splits sum.splits)
next
  case OpNext
  assume "bc_step op s = Inr s'"
  with OpNext show ?thesis by (auto simp: bc_step_def dest!: bc_nextImpl_watermarks)
next
  case OpReset
  assume "bc_step op s = Inr s'"
  with OpReset show ?thesis by (auto simp: bc_step_def dest!: bc_resetImpl_watermarks)
next
  case (OpAddCursor c)
  assume "bc_step op s = Inr s'"
  with OpAddCursor show ?thesis by (auto simp: bc_step_def dest!: bc_addCursorImpl_watermarks)
next
  case (OpRemoveCursor t)
  assume "bc_step op s = Inr s'"
  with OpRemoveCursor show ?thesis by (auto simp: bc_step_def dest!: bc_removeCursor_watermarks)
next
  case (OpRemoteMoreAvailable n remotes)
  assume "bc_step op s = Inr s'"
  with OpRemoteMoreAvailable bc_remoteMoreAvailableImpl_watermarks [of s n remotes] show ?thesis
    by (auto simp: bc_step_def split: prod.splits sum.splits if_splits)
qed

lemma bc_run_watermarks:
  "bc_run ops s = Inr s' \<Longrightarrow>
     bcMaxKnownVersion s \<le> bcMaxKnownVersion s'
     \<and> bcMinKnownCommittedVersion s \<le> bcMinKnownCommittedVersion s'"
proof (induction ops arbitrary: s)
  case Nil
  then show ?case by simp
next
  case (Cons op ops)
  then obtain s1 where st: "bc_step op s = Inr s1" and run: "bc_run ops s1 = Inr s'"
    by (auto split: sum.splits)
  from bc_step_watermarks [OF st] Cons.IH [OF run] show ?case by linarith
qed

text \<open>
  C4 (as stated). A leaf cursor copies the watermarks of every reply with data: a reply
  that carries smaller watermarks than the cursor holds lowers both of them.
\<close>

definition leaf_with_watermarks_10 :: StorageTeamPeekCursor where
  "leaf_with_watermarks_10 = newStorageTeamPeekCursor 1000 7 True 10 10"

definition reply_with_watermarks_5 :: TLogPeekReply where
  "reply_with_watermarks_5 =
     \<lparr> reply_data = [\<lparr> version = 1000, subsequence = 1, message = MUTATION_REF ''a'' \<rparr>],
       reply_beginVersion = 1000, reply_endVersion = 1001,
       reply_maxKnownVersion = 5, reply_minKnownCommittedVersion = 5 \<rparr>"

theorem leaf_watermarks_decrease:
  "maxKnownVersion (snd (peekRemote (\<lambda>r. Inr reply_with_watermarks_5) leaf_with_watermarks_10))
     < maxKnownVersion leaf_with_watermarks_10
   \<and> minKnownCommittedVersion
        (snd (peekRemote (\<lambda>r. Inr reply_with_watermarks_5) leaf_with_watermarks_10))
     < minKnownCommittedVersion leaf_with_watermarks_10"
  by (simp add: peekRemote_def leaf_with_watermarks_10_def reply_with_watermarks_5_def
      newStorageTeamPeekCursor_def Let_def)

text \<open>
  C4 (amended). Across any sequence of operations of a broadcast merge cursor its
  \<open>maxKnownVersion\<close> and \<open>minKnownCommittedVersion\<close> never decrease. The watermarks of a
  leaf cursor change only in a peek that returns data, where they become those of the
  reply: they do not decrease when the reply's watermarks are not below the cursor's.
\<close>

theorem watermarks_never_decrease:
  "(bc_run ops s = Inr s' \<longrightarrow>
      bcMaxKnownVersion s \<le> bcMaxKnownVersion s'
      \<and> bcMinKnownCommittedVersion s \<le> bcMinKnownCommittedVersion s')
   \<and> (case tlog (peekRequest c) of
         Inl e \<Rightarrow>
           maxKnownVersion (snd (peekRemote tlog c)) = maxKnownVersion c
           \<and> minKnownCommittedVersion (snd (peekRemote tlog c)) = minKnownCommittedVersion c
       | Inr reply \<Rightarrow>
           if reply_data reply = [] then
             maxKnownVersion (snd (peekRemote tlog c)) = maxKnownVersion c
             \<and> minKnownCommittedVersion (snd (peekRemote tlog c)) = minKnownCommittedVersion c
           else
             maxKnownVersion (snd (peekRemote tlog c)) = reply_maxKnownVersion reply
             \<and> minKnownCommittedVersion (snd (peekRemote tlog c))
                 = reply_minKnownCommittedVersion reply
             \<and> (maxKnownVersion c \<le> reply_maxKnownVersion reply
                  \<and> minKnownCommittedVersion c \<le> reply_minKnownCommittedVersion reply
                  \<longrightarrow> maxKnownVersion c \<le> maxKnownVersion (snd (peekRemote tlog c))
                      \<and> minKnownCommittedVersion c
                          \<le> minKnownCommittedVersion (snd (peekRemote tlog c))))"
proof (intro conjI impI)
  assume "bc_run ops s = Inr s'"
  then show "bcMaxKnownVersion s \<le> bcMaxKnownVersion s'"
    and "bcMinKnownCommittedVersion s \<le> bcMinKnownCommittedVersion s'"
    using bc_run_watermarks by blast+
next
  show "case tlog (peekRequest c) of
         Inl e \<Rightarrow>
           maxKnownVersion (snd (peekRemote tlog c)) = maxKnownVersion c
           \<and> minKnownCommittedVersion (snd (peekRemote tlog c)) = minKnownCommittedVersion c
       | Inr reply \<Rightarrow>
           if reply_data reply = [] then
             maxKnownVersion (snd (peekRemote tlog c)) = maxKnownVersion c
             \<and> minKnownCommittedVersion (snd (peekRemote tlog c)) = minKnownCommittedVersion c
           else
             maxKnownVersion (snd (peekRemote tlog c)) = reply_maxKnownVersion reply
             \<and> minKnownCommittedVersion (snd (peekRemote tlog c))
                 = reply_minKnownCommittedVersion reply
             \<and> (maxKnownVersion c \<le> reply_maxKnownVersion reply
                  \<and> minKnownCommittedVersion c \<le> reply_minKnownCommittedVersion reply
                  \<longrightarrow> maxKnownVersion c \<le> maxKnownVersion (snd (peekRemote tlog c))
                      \<and> minKnownCommittedVersion c
                          \<le> minKnownCommittedVersion (snd (peekRemote tlog c)))"
    by (simp add: peekRemote_def Let_def split: sum.split)
qed

text \<open>
  A run that exercises the theorem: a leaf is added to an ordered merge cursor, refilled
  with a reply that carries the watermarks 1005 and 1000, and read.
\<close>

definition remote_1000_1005 :: "StorageTeamID \<Rightarrow> nat \<Rightarrow> TLogInterface" where
  "remote_1000_1005 t i r = Inr reply_1000_1005"

definition run_add_refill_read :: "bc_op list" where
  "run_add_refill_read =
     [OpAddCursor (newStorageTeamPeekCursor 1000 7 True 0 0),
      OpRemoteMoreAvailable 3 remote_1000_1005,
      OpHasRemaining, OpNext]"

lemma run_add_refill_read_result:
  "bc_run run_add_refill_read (newBroadcastedStorageTeamPeekCursor Ordered 0 0 0 0) =
     Inr \<lparr> containerKind = Ordered,
           cursors = [\<lparr> storageTeamID = 7,
                        deserializer = reply_data reply_1000_1005,
                        wrappedDeserializerIter = 1,
                        beginVersion = 1000, reportEmptyVersion = True,
                        lastVersion = 1005, maxKnownVersion = 1005,
                        minKnownCommittedVersion = 1000 \<rparr>],
           pCursorContainer = [],
           emptyCursorStorageTeamIDs = [],
           retiredCursorStorageTeamIDs = [],
           currentVersion = 1000, needSnapshot = False, snapshotVersion = 1000,
           snapshotContainer = [7], bcMaxKnownVersion = 1005,
           bcMinKnownCommittedVersion = 1000 \<rparr>"
  by (simp add: run_add_refill_read_def newBroadcastedStorageTeamPeekCursor_def bc_step_def
      newStorageTeamPeekCursor_def bc_addCursorImpl_def isEmptyVersionsIgnored_def
      mapper_addCursorImpl_def isCursorExists_def std_set_insert_def std_set_erase_def
      bc_remoteMoreAvailableImpl_def bc_peekRemote_def peekSingleCursor_def
      peekSingleCursorFrom.simps peekRemote_def peekRequest_def remote_1000_1005_def
      reply_1000_1005_def List.map_filter_def fatal_def
      bc_hasRemainingImpl_def tryFillCursorContainer_def hasRemainingImpl_def atEnd_def
      getVersion_def getImpl_def std_set_intersection_def std_set_difference_def
      invalidVersion_def pushImpl_def bc_nextImpl_def nextImpl_Ordered_def ensureFilled_def
      consumeOne_def nextImpl_def Let_def)

theorem watermarks_never_decrease_witness:
  "bc_run run_add_refill_read (newBroadcastedStorageTeamPeekCursor Ordered 0 0 0 0) \<noteq> Inl AssertionFailed
   \<and> bcMaxKnownVersion (newBroadcastedStorageTeamPeekCursor Ordered 0 0 0 0)
       \<le> bcMaxKnownVersion
           (projr (bc_run run_add_refill_read (newBroadcastedStorageTeamPeekCursor Ordered 0 0 0 0)))
   \<and> bcMaxKnownVersion
        (projr (bc_run run_add_refill_read (newBroadcastedStorageTeamPeekCursor Ordered 0 0 0 0)))
       = 1005
   \<and> maxKnownVersion (newStorageTeamPeekCursor 1000 7 True 0 0)
       \<le> maxKnownVersion
            (snd (peekRemote (\<lambda>r. Inr reply_1000_1005) (newStorageTeamPeekCursor 1000 7 True 0 0)))"
  using watermarks_never_decrease
    [of run_add_refill_read "newBroadcastedStorageTeamPeekCursor Ordered 0 0 0 0"
        "projr (bc_run run_add_refill_read (newBroadcastedStorageTeamPeekCursor Ordered 0 0 0 0))"
        "\<lambda>r. Inr reply_1000_1005" "newStorageTeamPeekCursor 1000 7 True 0 0"]
  by (simp add: run_add_refill_read_result reply_1000_1005_def newStorageTeamPeekCursor_def)

section \<open>Properties of the leaf comparison\<close>

text \<open>
  C6 (as stated). Two leaf cursors of different storage teams whose current triples agree
  on version and subsequence compare as equal: the comparison does not look at the
  storage team, and neither of the two is above the other for the heap.
\<close>

definition leaf_team1_at_5_1 :: StorageTeamPeekCursor where
  "leaf_team1_at_5_1 =
     (newStorageTeamPeekCursor 5 1 True 0 0)
       \<lparr> deserializer := [\<lparr> version = 5, subsequence = 1, message = MUTATION_REF ''x'' \<rparr>] \<rparr>"

definition leaf_team2_at_5_1 :: StorageTeamPeekCursor where
  "leaf_team2_at_5_1 =
     (newStorageTeamPeekCursor 5 2 True 0 0)
       \<lparr> deserializer := [\<lparr> version = 5, subsequence = 1, message = MUTATION_REF ''y'' \<rparr>] \<rparr>"

theorem operatorSpaceship_ties_across_teams:
  "leaf_team1_at_5_1 \<noteq> leaf_team2_at_5_1
   \<and> storageTeamID leaf_team1_at_5_1 \<noteq> storageTeamID leaf_team2_at_5_1
   \<and> operatorSpaceship leaf_team1_at_5_1 leaf_team2_at_5_1 = Inr 0
   \<and> heapElementComparator [leaf_team1_at_5_1, leaf_team2_at_5_1] 1 2 = Inr False
   \<and> heapElementComparator [leaf_team1_at_5_1, leaf_team2_at_5_1] 2 1 = Inr False"
  by (simp add: leaf_team1_at_5_1_def leaf_team2_at_5_1_def newStorageTeamPeekCursor_def
      operatorSpaceship_def heapElementComparator_def getVersion_def getSubsequence_def
      getImpl_def)

text \<open>
  C6 (amended). On two leaf cursors that have a current triple, the comparison is the
  lexicographic comparison of \<open>(version, subsequence)\<close>; it answers 0 exactly when both
  components agree, whatever the storage teams of the two cursors are.
\<close>

theorem operatorSpaceship_lexicographic:
  assumes "getImpl a = Inr x" and "getImpl b = Inr y"
  shows "operatorSpaceship a b =
           Inr (if version x < version y
                   \<or> (version x = version y \<and> subsequence x < subsequence y) then - 1
                else if version y < version x
                   \<or> (version x = version y \<and> subsequence y < subsequence x) then 1
                else 0)
         \<and> (operatorSpaceship a b = Inr 0
              \<longleftrightarrow> version x = version y \<and> subsequence x = subsequence y)"
  using assms
  by (auto simp: operatorSpaceship_def getVersion_def getSubsequence_def)

definition leaf_team2_at_5_3 :: StorageTeamPeekCursor where
  "leaf_team2_at_5_3 =
     (newStorageTeamPeekCursor 5 2 True 0 0)
       \<lparr> deserializer := [\<lparr> version = 5, subsequence = 3, message = MUTATION_REF ''z'' \<rparr>] \<rparr>"

theorem operatorSpaceship_lexicographic_witness:
  "getImpl leaf_team1_at_5_1
     = Inr \<lparr> version = 5, subsequence = 1, message = MUTATION_REF ''x'' \<rparr>
   \<and> getImpl leaf_team2_at_5_3
     = Inr \<lparr> version = 5, subsequence = 3, message = MUTATION_REF ''z'' \<rparr>
   \<and> operatorSpaceship leaf_team1_at_5_1 leaf_team2_at_5_3 = Inr (- 1)"
proof -
  have a: "getImpl leaf_team1_at_5_1
             = Inr \<lparr> version = 5, subsequence = 1, message = MUTATION_REF ''x'' \<rparr>"
    by (simp add: getImpl_def leaf_team1_at_5_1_def newStorageTeamPeekCursor_def)
  have b: "getImpl leaf_team2_at_5_3
             = Inr \<lparr> version = 5, subsequence = 3, message = MUTATION_REF ''z'' \<rparr>"
    by (simp add: getImpl_def leaf_team2_at_5_3_def newStorageTeamPeekCursor_def)
  from operatorSpaceship_lexicographic [OF a b] a b show ?thesis by simp
qed

section \<open>Properties of the merge cursor: adding leaves\<close>






section \<open>Properties of the merge cursor: a single leaf without data\<close>




text \<open>
  C7 (amended). When \<open>tryFillCursorContainer\<close> runs on a merge cursor that holds exactly
  one leaf, and that leaf is empty and not retired, it reports no data and
  \<open>currentVersion\<close> keeps the value it had before the call; the same holds for
  \<open>hasRemaining\<close>, which makes that call. So as long as its single leaf has no data and
  has not reached the end of its stream, the merge cursor keeps its initial
  \<open>currentVersion\<close>.
\<close>

lemma hasRemainingImpl_storageTeamID:
  "storageTeamID (snd (hasRemainingImpl c)) = storageTeamID c"
  by (simp add: hasRemainingImpl_def Let_def)




section \<open>Iterating a merge cursor\<close>

definition totalRemaining :: "BroadcastedStorageTeamPeekCursor \<Rightarrow> nat" where
  "totalRemaining s = sum_list (map remainingCount (cursors s))"

lemma walkCursors_remaining:
  "walkCursors cs cv f es = Inr (cs', r) \<Longrightarrow>
     sum_list (map remainingCount cs') \<le> sum_list (map remainingCount cs)"
proof (induction cs arbitrary: cv f es cs' r)
  case Nil
  then show ?case by simp
next
  case (Cons c cs)
  obtain b c1 where h: "hasRemainingImpl c = (b, c1)" by (cases "hasRemainingImpl c")
  from hasRemainingImpl_remainingCount [OF h] have le: "remainingCount c1 \<le> remainingCount c" .
  from Cons.prems h obtain cs2 cv2 f2 es2 where
    w: "walkCursors cs cv2 f2 es2 = Inr (cs2, r)" and cs': "cs' = c1 # cs2"
    by (cases b) (auto split: sum.splits if_splits)
  from Cons.IH [OF w] le cs' show ?case by simp
qed

lemma tryFillCursorContainer_remaining:
  "totalRemaining (snd (tryFillCursorContainer s)) \<le> totalRemaining s"
  by (auto simp: tryFillCursorContainer_def totalRemaining_def Let_def
      split: sum.split prod.split dest!: walkCursors_remaining)

lemma bc_hasRemainingImpl_remaining:
  "totalRemaining (snd (bc_hasRemainingImpl s)) \<le> totalRemaining s"
proof -
  have "totalRemaining (snd (bc_hasRemainingImpl s))
          = totalRemaining (snd (if pCursorContainer s = [] then tryFillCursorContainer s
                                 else (Inr True, s)))"
    by (auto simp: bc_hasRemainingImpl_def totalRemaining_def split: sum.split prod.split)
  with tryFillCursorContainer_remaining [of s] show ?thesis by simp
qed

lemma ensureFilled_remaining:
  "ensureFilled s = Inr s1 \<Longrightarrow> totalRemaining s1 \<le> totalRemaining s"
  using tryFillCursorContainer_remaining [of s]
  by (auto simp: ensureFilled_def split: if_splits sum.splits prod.splits bool.splits)

lemma putCursor_remaining:
  "getCursorPtr m t = Some c \<Longrightarrow> storageTeamID c' = t \<Longrightarrow>
     remainingCount c' < remainingCount c \<Longrightarrow>
     sum_list (map remainingCount (putCursor c' m)) < sum_list (map remainingCount m)"
  by (induction m) (auto split: if_splits)

lemma nextImpl_storageTeamID: "nextImpl c = Inr c1 \<Longrightarrow> storageTeamID c1 = storageTeamID c"
  by (auto simp: nextImpl_def split: if_splits)

lemma getCursorPtr_storageTeamID: "getCursorPtr m t = Some c \<Longrightarrow> storageTeamID c = t"
  by (induction m) (auto split: if_splits)

lemma consumeOne_remaining:
  assumes "consumeOne cv c = Inr (again, c')"
  shows "remainingCount c' < remainingCount c \<and> storageTeamID c' = storageTeamID c"
proof -
  from assms obtain c1 where n: "nextImpl c = Inr c1"
    by (auto simp: consumeOne_def split: sum.splits)
  obtain b c2 where h: "hasRemainingImpl c1 = (b, c2)" by (cases "hasRemainingImpl c1")
  with assms n have "c' = c2"
    by (auto simp: consumeOne_def split: sum.splits bool.splits)
  with nextImpl_remainingCount [OF n] hasRemainingImpl_remainingCount [OF h]
    nextImpl_storageTeamID [OF n] hasRemainingImpl_storageTeamID [of c1] h
  show ?thesis by simp
qed

lemma bc_nextImpl_remaining:
  assumes "bc_nextImpl s = Inr s'"
  shows "totalRemaining s' < totalRemaining s"
proof -
  from assms obtain s1 p ps c again c' where
    e: "ensureFilled s = Inr s1" and cont: "pCursorContainer s1 = p # ps"
    and g: "getCursorPtr (cursors s1) p = Some c"
    and co: "consumeOne (currentVersion s1) c = Inr (again, c')"
    and cs: "cursors s' = putCursor c' (cursors s1)"
    by (auto simp: bc_nextImpl_def nextImpl_Ordered_def nextImpl_Unordered_def Let_def
        split: ContainerKind.splits sum.splits list.splits option.splits prod.splits if_splits)
  from consumeOne_remaining [OF co] getCursorPtr_storageTeamID [OF g]
  have "sum_list (map remainingCount (putCursor c' (cursors s1)))
          < sum_list (map remainingCount (cursors s1))"
    by (intro putCursor_remaining [OF g]) simp_all
  with cs ensureFilled_remaining [OF e] show ?thesis by (simp add: totalRemaining_def)
qed

text \<open>
  What the iterator protocol hands out at the current position: the triple of
  \<open>get()\<close>, together with the storage team of the leaf it is read from.
\<close>

definition bc_current ::
  "BroadcastedStorageTeamPeekCursor \<Rightarrow> error + (StorageTeamID \<times> VersionSubsequenceMessage)" where
  "bc_current s =
     (case bc_front s of
        Inl e \<Rightarrow> Inl e
      | Inr c \<Rightarrow> (case getImpl c of Inl e \<Rightarrow> Inl e | Inr m \<Rightarrow> Inr (storageTeamID c, m)))"



section \<open>The leaves of a merge cursor\<close>

text \<open>
  Vocabulary for the leaves: a leaf has data when its iterator is inside the buffer,
  \<open>frontOf\<close> is the triple under the iterator, \<open>advance\<close> moves the iterator by one. The
  leaves of a merge cursor report empty versions (\<open>addCursorImpl\<close> asserts it) and their
  iterator never leaves the buffer.
\<close>

definition hasData :: "StorageTeamPeekCursor \<Rightarrow> bool" where
  "hasData c = (wrappedDeserializerIter c < length (deserializer c))"

definition frontOf :: "StorageTeamPeekCursor \<Rightarrow> VersionSubsequenceMessage" where
  "frontOf c = deserializer c ! wrappedDeserializerIter c"

definition advance :: "StorageTeamPeekCursor \<Rightarrow> StorageTeamPeekCursor" where
  "advance c = c\<lparr> wrappedDeserializerIter := Suc (wrappedDeserializerIter c) \<rparr>"

definition wfLeaf :: "StorageTeamPeekCursor \<Rightarrow> bool" where
  "wfLeaf c = (reportEmptyVersion c \<and> wrappedDeserializerIter c \<le> length (deserializer c))"







lemma storageTeamID_advance [simp]: "storageTeamID (advance c) = storageTeamID c"
  by (simp add: advance_def)

lemma deserializer_advance [simp]: "deserializer (advance c) = deserializer c"
  by (simp add: advance_def)


subsection \<open>The mapper as a store\<close>

lemma getCursorPtr_in_set: "getCursorPtr m t = Some c \<Longrightarrow> c \<in> set m"
  by (induction m) (auto split: if_splits)

lemma getCursorPtr_None: "getCursorPtr m t = None \<longleftrightarrow> t \<notin> storageTeamID ` set m"
  by (induction m) auto

lemma getCursorPtr_distinct:
  "distinct (map storageTeamID m) \<Longrightarrow> c \<in> set m \<Longrightarrow> getCursorPtr m (storageTeamID c) = Some c"
  by (induction m) (auto simp: rev_image_eqI)

lemma map_storageTeamID_putCursor [simp]:
  "map storageTeamID (putCursor c' m) = map storageTeamID m"
  by (induction m) auto




lemma putCursor_keeps:
  "distinct (map storageTeamID m) \<Longrightarrow> x \<in> set m \<Longrightarrow> storageTeamID x \<noteq> storageTeamID c' \<Longrightarrow>
     x \<in> set (putCursor c' m)"
  by (induction m) auto

subsection \<open>The walk over the leaves in \<open>tryFillCursorContainer\<close>\<close>






subsection \<open>The ordered container\<close>

text \<open>
  The key of a triple and of a leaf that has data; pairs are ordered lexicographically.
\<close>

definition vsmKey :: "VersionSubsequenceMessage \<Rightarrow> Version \<times> Subsequence" where
  "vsmKey x = (version x, subsequence x)"

definition teamKey :: "CursorMapper \<Rightarrow> StorageTeamID \<Rightarrow> Version \<times> Subsequence" where
  "teamKey m t = (case getCursorPtr m t of Some c \<Rightarrow> vsmKey (frontOf c) | None \<Rightarrow> (0, 0))"

definition teamHasData :: "CursorMapper \<Rightarrow> StorageTeamID \<Rightarrow> bool" where
  "teamHasData m t = (case getCursorPtr m t of Some c \<Rightarrow> hasData c | None \<Rightarrow> False)"

fun insertOrdered ::
  "(StorageTeamID \<Rightarrow> Version \<times> Subsequence) \<Rightarrow> StorageTeamID \<Rightarrow> StorageTeamID list
     \<Rightarrow> StorageTeamID list" where
  "insertOrdered k p [] = [p]"
| "insertOrdered k p (q # qs) = (if k p < k q then p # q # qs else q # insertOrdered k p qs)"




lemma set_insertOrdered [simp]: "set (insertOrdered k p qs) = insert p (set qs)"
  by (induction qs) auto

lemma distinct_insertOrdered [simp]:
  "distinct (insertOrdered k p qs) \<longleftrightarrow> p \<notin> set qs \<and> distinct qs"
  by (induction qs) auto


lemma insertOrdered_cong:
  "(\<And>t. t \<in> insert p (set qs) \<Longrightarrow> k t = k' t) \<Longrightarrow>
     insertOrdered k p qs = insertOrdered k' p qs"
  by (induction qs) auto




section \<open>The invariant of the merge cursor\<close>

text \<open>
  The structural invariant of a broadcast merge cursor: the leaves have distinct storage
  teams, report empty versions and keep their iterators inside their buffers; the
  container holds distinct pointers to leaves of the mapper that have data at
  \<open>currentVersion\<close> (the same-version invariant); the leaves named both by the empty set
  and by the retired set have no data; the ordered container is in ascending order of the
  leaves' current keys; the empty set, a \<open>std::set\<close>, has no repetition and names no
  leaf of the container.
\<close>

definition sameVersion :: "BroadcastedStorageTeamPeekCursor \<Rightarrow> bool" where
  "sameVersion s =
     (\<forall>t\<in>set (pCursorContainer s).
        \<exists>c. getCursorPtr (cursors s) t = Some c \<and> hasData c
            \<and> version (frontOf c) = currentVersion s)"

definition bcInv :: "BroadcastedStorageTeamPeekCursor \<Rightarrow> bool" where
  "bcInv s =
     (distinct (map storageTeamID (cursors s))
      \<and> (\<forall>c\<in>set (cursors s). wfLeaf c)
      \<and> distinct (pCursorContainer s)
      \<and> sameVersion s
      \<and> (\<forall>c\<in>set (cursors s).
            storageTeamID c \<in> set (emptyCursorStorageTeamIDs s)
            \<and> storageTeamID c \<in> set (retiredCursorStorageTeamIDs s) \<longrightarrow> \<not> hasData c)
      \<and> (containerKind s = Ordered
           \<longrightarrow> sorted (map (teamKey (cursors s)) (pCursorContainer s)))
      \<and> distinct (emptyCursorStorageTeamIDs s)
      \<and> set (pCursorContainer s) \<inter> set (emptyCursorStorageTeamIDs s) = {})"

lemma teamHasData_iff:
  "distinct (map storageTeamID m) \<Longrightarrow>
     teamHasData m t \<longleftrightarrow> (\<exists>c\<in>set m. storageTeamID c = t \<and> hasData c)"
  by (auto simp: teamHasData_def split: option.splits
      dest: getCursorPtr_in_set getCursorPtr_storageTeamID getCursorPtr_distinct
      simp: getCursorPtr_None)
















subsection \<open>\<open>hasRemaining\<close> and \<open>next\<close> keep the invariant\<close>

definition takeSnapshot ::
  "BroadcastedStorageTeamPeekCursor \<Rightarrow> BroadcastedStorageTeamPeekCursor" where
  "takeSnapshot s =
     (if needSnapshot s
      then s\<lparr> needSnapshot := False, snapshotVersion := currentVersion s,
              snapshotContainer := pCursorContainer s \<rparr>
      else s)"



lemma takeSnapshot_fields [simp]:
  "cursors (takeSnapshot s) = cursors s"
  "pCursorContainer (takeSnapshot s) = pCursorContainer s"
  "emptyCursorStorageTeamIDs (takeSnapshot s) = emptyCursorStorageTeamIDs s"
  "retiredCursorStorageTeamIDs (takeSnapshot s) = retiredCursorStorageTeamIDs s"
  "currentVersion (takeSnapshot s) = currentVersion s"
  "containerKind (takeSnapshot s) = containerKind s"
  "needSnapshot (takeSnapshot s) = False"
  by (simp_all add: takeSnapshot_def)

lemma bcInv_takeSnapshot [simp]: "bcInv (takeSnapshot s) = bcInv s"
  by (simp add: bcInv_def sameVersion_def)




text \<open>
  One \<open>next()\<close> on a cursor with a filled container: the front leaf moves by one triple
  and stays in the container exactly when its new triple is at \<open>currentVersion\<close>.
\<close>

definition stays :: "Version \<Rightarrow> StorageTeamPeekCursor \<Rightarrow> bool" where
  "stays cv c = (hasData (advance c) \<and> version (frontOf (advance c)) = cv)"

definition afterNext ::
  "BroadcastedStorageTeamPeekCursor \<Rightarrow> StorageTeamID \<Rightarrow> StorageTeamID list
     \<Rightarrow> StorageTeamPeekCursor \<Rightarrow> BroadcastedStorageTeamPeekCursor" where
  "afterNext s p ps c =
     s\<lparr> cursors := putCursor (advance c) (cursors s),
        pCursorContainer :=
          (if stays (currentVersion s) c then
             (case containerKind s of
                Ordered \<Rightarrow> insertOrdered (teamKey (putCursor (advance c) (cursors s))) p ps
              | Unordered \<Rightarrow> p # ps)
           else ps) \<rparr>"




lemma afterNext_fields [simp]:
  "cursors (afterNext s p ps c) = putCursor (advance c) (cursors s)"
  "emptyCursorStorageTeamIDs (afterNext s p ps c) = emptyCursorStorageTeamIDs s"
  "retiredCursorStorageTeamIDs (afterNext s p ps c) = retiredCursorStorageTeamIDs s"
  "currentVersion (afterNext s p ps c) = currentVersion s"
  "containerKind (afterNext s p ps c) = containerKind s"
  "needSnapshot (afterNext s p ps c) = needSnapshot s"
  "snapshotVersion (afterNext s p ps c) = snapshotVersion s"
  "snapshotContainer (afterNext s p ps c) = snapshotContainer s"
  by (simp_all add: afterNext_def)




section \<open>Replaying a batch after \<open>reset\<close>\<close>

text \<open>
  Two states of one leaf between two refills differ in the position of the iterator only,
  and a leaf that had no data is not touched at all.
\<close>

definition sameLeaf :: "StorageTeamPeekCursor \<Rightarrow> StorageTeamPeekCursor \<Rightarrow> bool" where
  "sameLeaf c0 c1 = (resetImpl c1 = resetImpl c0 \<and> (\<not> hasData c0 \<longrightarrow> c1 = c0))"

lemma sameLeaf_refl [simp]: "sameLeaf c c"
  by (simp add: sameLeaf_def)



lemma list_all2_sameLeaf_refl [simp]: "list_all2 sameLeaf m m"
  by (simp add: list_all2_refl)



text \<open>
  What an iteration leaves untouched: the retired set, the kind of the container, the
  watermarks and, once the snapshot is taken, the snapshot.
\<close>

definition sameBatch ::
  "BroadcastedStorageTeamPeekCursor \<Rightarrow> BroadcastedStorageTeamPeekCursor \<Rightarrow> bool" where
  "sameBatch s s1 =
     (list_all2 sameLeaf (cursors s) (cursors s1)
      \<and> retiredCursorStorageTeamIDs s1 = retiredCursorStorageTeamIDs s
      \<and> containerKind s1 = containerKind s
      \<and> needSnapshot s1 = needSnapshot s
      \<and> snapshotVersion s1 = snapshotVersion s
      \<and> snapshotContainer s1 = snapshotContainer s
      \<and> bcMaxKnownVersion s1 = bcMaxKnownVersion s
      \<and> bcMinKnownCommittedVersion s1 = bcMinKnownCommittedVersion s)"

lemma sameBatch_refl [simp]: "sameBatch s s"
  by (simp add: sameBatch_def)


lemma takeSnapshot_idle [simp]: "\<not> needSnapshot s \<Longrightarrow> takeSnapshot s = s"
  by (simp add: takeSnapshot_def)














section \<open>Refills keep the invariant\<close>

subsection \<open>Removing cursors\<close>


lemma getCursorPtr_removed:
  "getCursorPtr (mapper_removeCursorImpl t m) t = None"
  by (induction m) (auto simp: mapper_removeCursorImpl_def)






subsection \<open>Peeking one leaf\<close>









subsection \<open>Peeking the leaves of the empty set\<close>















lemma set_std_set_erase [simp]: "set (std_set_erase t es) = set es - {t}"
  by (auto simp: std_set_erase_def)



subsection \<open>The refill of the merge cursor\<close>









lemma bcInv_needSnapshot [simp]: "bcInv (s\<lparr> needSnapshot := b \<rparr>) = bcInv s"
  by (simp add: bcInv_def sameVersion_def)



subsection \<open>Adding a leaf\<close>



subsection \<open>Sequences of operations without \<open>reset\<close>\<close>





section \<open>Version-aligned leaves\<close>

text \<open>
  In the broadcast model every storage team receives a triple (possibly an empty-version
  marker) at every commit version. For the unread part of the leaves' buffers this means:
  there is one sequence \<open>vs\<close> of commit versions such that the versions each leaf still
  holds, in the order it holds them, are an initial part of \<open>vs\<close>. While a version is
  being handed out, the leaves that are done with it are one version ahead.
\<close>

definition remainingOf :: "StorageTeamPeekCursor \<Rightarrow> VersionSubsequenceMessage list" where
  "remainingOf c = drop (wrappedDeserializerIter c) (deserializer c)"












section \<open>A worked example\<close>

text \<open>
  Two storage teams at the commit versions 1000 and 1001; team 2 has no mutation at
  version 1001 and receives an empty-version marker there.
\<close>

definition mutation :: "Version \<Rightarrow> Subsequence \<Rightarrow> VersionSubsequenceMessage" where
  "mutation v n = \<lparr> version = v, subsequence = n, message = MUTATION_REF ''m'' \<rparr>"

definition emptyVersion :: "Version \<Rightarrow> VersionSubsequenceMessage" where
  "emptyVersion v = \<lparr> version = v, subsequence = 0, message = EMPTY_VERSION_MESSAGE \<rparr>"

definition replyTeam1 :: TLogPeekReply where
  "replyTeam1 =
     \<lparr> reply_data = [mutation 1000 1, mutation 1000 3, mutation 1001 2],
       reply_beginVersion = 1000, reply_endVersion = 1002,
       reply_maxKnownVersion = 1001, reply_minKnownCommittedVersion = 1000 \<rparr>"

definition replyTeam2 :: TLogPeekReply where
  "replyTeam2 =
     \<lparr> reply_data = [mutation 1000 2, emptyVersion 1001],
       reply_beginVersion = 1000, reply_endVersion = 1002,
       reply_maxKnownVersion = 1001, reply_minKnownCommittedVersion = 1000 \<rparr>"

definition remoteTeams :: "StorageTeamID \<Rightarrow> nat \<Rightarrow> TLogInterface" where
  "remoteTeams t i r = (if t = 1 then Inr replyTeam1 else Inr replyTeam2)"

definition twoLeaves :: "bc_op list" where
  "twoLeaves =
     [OpAddCursor (newStorageTeamPeekCursor 1000 1 True 0 0),
      OpAddCursor (newStorageTeamPeekCursor 1000 2 True 0 0)]"

definition leafTeam1 :: "nat \<Rightarrow> StorageTeamPeekCursor" where
  "leafTeam1 i =
     \<lparr> storageTeamID = 1, deserializer = reply_data replyTeam1,
       wrappedDeserializerIter = i, beginVersion = 1000, reportEmptyVersion = True,
       lastVersion = 1002, maxKnownVersion = 1001, minKnownCommittedVersion = 1000 \<rparr>"

definition leafTeam2 :: "nat \<Rightarrow> StorageTeamPeekCursor" where
  "leafTeam2 i =
     \<lparr> storageTeamID = 2, deserializer = reply_data replyTeam2,
       wrappedDeserializerIter = i, beginVersion = 1000, reportEmptyVersion = True,
       lastVersion = 1002, maxKnownVersion = 1001, minKnownCommittedVersion = 1000 \<rparr>"

text \<open>The merge cursor after both leaves were added and refilled.\<close>

definition refilled :: "ContainerKind \<Rightarrow> BroadcastedStorageTeamPeekCursor" where
  "refilled k =
     \<lparr> containerKind = k, cursors = [leafTeam1 0, leafTeam2 0],
       pCursorContainer = [], emptyCursorStorageTeamIDs = [],
       retiredCursorStorageTeamIDs = [], currentVersion = 0,
       needSnapshot = True, snapshotVersion = 0, snapshotContainer = [],
       bcMaxKnownVersion = 1001, bcMinKnownCommittedVersion = 1000 \<rparr>"

lemmas example_defs =
  mutation_def emptyVersion_def replyTeam1_def replyTeam2_def remoteTeams_def twoLeaves_def
  leafTeam1_def leafTeam2_def refilled_def
  newBroadcastedStorageTeamPeekCursor_def newStorageTeamPeekCursor_def

lemmas operation_defs =
  bc_step_def bc_addCursorImpl_def isEmptyVersionsIgnored_def
  mapper_addCursorImpl_def isCursorExists_def std_set_insert_def std_set_erase_def
  bc_remoteMoreAvailableImpl_def bc_peekRemote_def peekSingleCursor_def
  peekSingleCursorFrom.simps peekRemote_def peekRequest_def
  List.map_filter_def fatal_def
  bc_hasRemainingImpl_def tryFillCursorContainer_def hasRemainingImpl_def atEnd_def
  getVersion_def getSubsequence_def getImpl_def std_set_intersection_def
  std_set_difference_def invalidVersion_def pushImpl_def heapElementComparator_def
  operatorSpaceship_def bc_nextImpl_def nextImpl_Ordered_def nextImpl_Unordered_def
  ensureFilled_def consumeOne_def nextImpl_def bc_current_def bc_front_def
  bc_resetImpl_def resetImpl_def skipToVersion.simps Let_def
































section \<open>The order of the triples handed out\<close>

text \<open>
  What a leaf still holds is in the order of the remote: strictly ascending in
  \<open>(version, subsequence)\<close>. \<open>pending\<close> is everything the leaves of a merge cursor still
  hold, each triple with the storage team of its leaf.
\<close>

definition sortedLeaf :: "StorageTeamPeekCursor \<Rightarrow> bool" where
  "sortedLeaf c = sorted_wrt (<) (map vsmKey (remainingOf c))"

definition pending ::
  "BroadcastedStorageTeamPeekCursor \<Rightarrow> (StorageTeamID \<times> VersionSubsequenceMessage) set" where
  "pending s = {(storageTeamID c, x) | c x. c \<in> set (cursors s) \<and> x \<in> set (remainingOf c)}"

text \<open>
  While the container is not empty, the leaves outside it have left the current version
  behind.
\<close>

definition ordInv :: "BroadcastedStorageTeamPeekCursor \<Rightarrow> bool" where
  "ordInv s =
     (bcInv s \<and> (\<forall>c\<in>set (cursors s). sortedLeaf c)
      \<and> (pCursorContainer s \<noteq> [] \<longrightarrow>
           (\<forall>c\<in>set (cursors s). storageTeamID c \<notin> set (pCursorContainer s) \<longrightarrow>
              (\<forall>x\<in>set (remainingOf c). currentVersion s < version x))))"


definition onlyPrefix :: "('a \<Rightarrow> bool) \<Rightarrow> 'a list \<Rightarrow> bool" where
  "onlyPrefix P xs = (\<forall>e\<in>set (dropWhile P xs). \<not> P e)"








lemma pending_takeSnapshot [simp]: "pending (takeSnapshot s) = pending s"
  by (simp add: pending_def)

lemma ordInv_takeSnapshot [simp]: "ordInv (takeSnapshot s) = ordInv s"
  by (simp add: ordInv_def)






lemma onlyPrefix_Nil [simp]: "onlyPrefix P []"
  by (simp add: onlyPrefix_def)














section \<open>\<open>advanceTo\<close>\<close>

text \<open>
  \<open>advanceTo(cursor, version, subsequence)\<close> on a broadcast merge cursor. The iterator of
  \<open>PeekCursorBase\<close> is the cursor itself: the test \<open>iter != cursor->end()\<close> is
  \<open>hasRemaining()\<close>, \<open>iter->version\<close> and \<open>iter->subsequence\<close> read \<open>get()\<close>, and \<open>++iter\<close> is
  \<open>next()\<close>.

  \<open>skipSubsequences\<close> is the inner loop
  \<open>while (iter != cursor->end() && iter->version == version && iter->subsequence < subsequence) ++iter\<close>.
\<close>

function skipSubsequences ::
  "Version \<Rightarrow> Subsequence \<Rightarrow> BroadcastedStorageTeamPeekCursor
     \<Rightarrow> error + BroadcastedStorageTeamPeekCursor" where
  "skipSubsequences v n s =
     (case bc_hasRemainingImpl s of
        (Inl e, s1) \<Rightarrow> Inl e
      | (Inr False, s1) \<Rightarrow> Inr s1
      | (Inr True, s1) \<Rightarrow>
          (case bc_getImpl s1 of
             Inl e \<Rightarrow> Inl e
           | Inr x \<Rightarrow>
               if version x = v \<and> subsequence x < n
               then (case bc_nextImpl s1 of
                       Inl e \<Rightarrow> Inl e
                     | Inr s2 \<Rightarrow> skipSubsequences v n s2)
               else Inr s1))"
  by pat_completeness auto
termination
proof (relation "measure (\<lambda>(v, n, s). totalRemaining s)")
  show "wf (measure (\<lambda>(v, n, s). totalRemaining s))" by simp
next
  fix v :: Version and n :: Subsequence and s x1 s1 s2
  assume "(x1, s1) = bc_hasRemainingImpl s" and "bc_nextImpl s1 = Inr s2"
  then show "((v, n, s2), (v, n, s)) \<in> measure (\<lambda>(v, n, s). totalRemaining s)"
    using bc_hasRemainingImpl_remaining [of s] bc_nextImpl_remaining [of s1 s2]
    by (cases "bc_hasRemainingImpl s") auto
qed

declare skipSubsequences.simps [simp del]

lemma skipSubsequences_remaining:
  "skipSubsequences v n s = Inr s' \<Longrightarrow> totalRemaining s' \<le> totalRemaining s"
proof (induction v n s rule: skipSubsequences.induct)
  case (1 v n s)
  obtain res s1 where h: "bc_hasRemainingImpl s = (res, s1)"
    by (cases "bc_hasRemainingImpl s")
  with bc_hasRemainingImpl_remaining [of s] have le: "totalRemaining s1 \<le> totalRemaining s"
    by simp
  show ?case
  proof (cases res)
    case (Inl e)
    with h "1.prems" show ?thesis by (simp add: skipSubsequences.simps)
  next
    case (Inr b)
    show ?thesis
    proof (cases b)
      case False
      with h Inr "1.prems" le show ?thesis by (simp add: skipSubsequences.simps)
    next
      case True
      with h Inr have h': "bc_hasRemainingImpl s = (Inr True, s1)" by simp
      show ?thesis
      proof (cases "bc_getImpl s1")
        case (Inl e)
        with h' "1.prems" show ?thesis by (simp add: skipSubsequences.simps)
      next
        case g: (Inr x)
        show ?thesis
        proof (cases "version x = v \<and> subsequence x < n")
          case False
          with h' g "1.prems" le show ?thesis by (simp add: skipSubsequences.simps)
        next
          case c: True
          show ?thesis
          proof (cases "bc_nextImpl s1")
            case (Inl e)
            with h' g c "1.prems" show ?thesis by (simp add: skipSubsequences.simps)
          next
            case nx: (Inr s2)
            with h' g c "1.prems" have "skipSubsequences v n s2 = Inr s'"
              by (simp add: skipSubsequences.simps)
            from "1.IH" [OF h' [symmetric] refl refl g c nx this]
              bc_nextImpl_remaining [OF nx] le
            show ?thesis by simp
          qed
        qed
      qed
    qed
  qed
qed

text \<open>
  The loop \<open>while (iter != cursor->end()) { ... }\<close> of \<open>advanceTo\<close>. The result \<open>True\<close> is one
  of the \<open>return Void()\<close> inside the loop; \<open>False\<close> is the end of the loop: the local data
  is consumed. The test after the inner loop reads \<open>iter->version\<close> whether or not the
  inner loop stopped at \<open>end()\<close>.
\<close>

function scanLocal ::
  "Version \<Rightarrow> Subsequence \<Rightarrow> BroadcastedStorageTeamPeekCursor
     \<Rightarrow> error + (bool \<times> BroadcastedStorageTeamPeekCursor)" where
  "scanLocal v n s =
     (case bc_hasRemainingImpl s of
        (Inl e, s1) \<Rightarrow> Inl e
      | (Inr False, s1) \<Rightarrow> Inr (False, s1)
      | (Inr True, s1) \<Rightarrow>
          (case bc_getImpl s1 of
             Inl e \<Rightarrow> Inl e
           | Inr x \<Rightarrow>
               if v < version x then Inr (True, s1)
               else if version x = v then
                 (case skipSubsequences v n s1 of
                    Inl e \<Rightarrow> Inl e
                  | Inr s2 \<Rightarrow>
                      (case bc_getImpl s2 of
                         Inl e \<Rightarrow> Inl e
                       | Inr y \<Rightarrow>
                           if v < version y \<or> n \<le> subsequence y then Inr (True, s2)
                           else (case bc_nextImpl s2 of
                                   Inl e \<Rightarrow> Inl e
                                 | Inr s3 \<Rightarrow> scanLocal v n s3)))
               else (case bc_nextImpl s1 of
                       Inl e \<Rightarrow> Inl e
                     | Inr s3 \<Rightarrow> scanLocal v n s3)))"
  by pat_completeness auto
termination
proof (relation "measure (\<lambda>(v, n, s). totalRemaining s)")
  show "wf (measure (\<lambda>(v, n, s). totalRemaining s))" by simp
next
  fix v :: Version and n :: Subsequence and s x1 s1 s2 s3
  assume "(x1, s1) = bc_hasRemainingImpl s" and "skipSubsequences v n s1 = Inr s2"
    and "bc_nextImpl s2 = Inr s3"
  then show "((v, n, s3), (v, n, s)) \<in> measure (\<lambda>(v, n, s). totalRemaining s)"
    using bc_hasRemainingImpl_remaining [of s] bc_nextImpl_remaining [of s2 s3]
      skipSubsequences_remaining [of v n s1 s2]
    by (cases "bc_hasRemainingImpl s") auto
next
  fix v :: Version and n :: Subsequence and s x1 s1 s3
  assume "(x1, s1) = bc_hasRemainingImpl s" and "bc_nextImpl s1 = Inr s3"
  then show "((v, n, s3), (v, n, s)) \<in> measure (\<lambda>(v, n, s). totalRemaining s)"
    using bc_hasRemainingImpl_remaining [of s] bc_nextImpl_remaining [of s1 s3]
    by (cases "bc_hasRemainingImpl s") auto
qed

declare scanLocal.simps [simp del]

text \<open>
  \<open>advanceTo\<close>: the outer \<open>loop\<close>. It ends when the scan of the local data returns, when
  \<open>remoteMoreAvailable()\<close> reports nothing, or with the exception of \<open>remoteMoreAvailable()\<close>;
  otherwise it goes on with the refilled cursor, and so has no bound of its own: the first
  argument bounds the number of refills, and \<open>None\<close> is a loop that did not end within
  the bound.
\<close>

fun advanceTo ::
  "nat \<Rightarrow> nat \<Rightarrow> (StorageTeamID \<Rightarrow> nat \<Rightarrow> TLogInterface) \<Rightarrow> Version \<Rightarrow> Subsequence
     \<Rightarrow> BroadcastedStorageTeamPeekCursor
     \<Rightarrow> (error + BroadcastedStorageTeamPeekCursor) option" where
  "advanceTo 0 retryTimes remotes v n s = None"
| "advanceTo (Suc fuel) retryTimes remotes v n s =
     (case scanLocal v n s of
        Inl e \<Rightarrow> Some (Inl e)
      | Inr (True, s1) \<Rightarrow> Some (Inr s1)
      | Inr (False, s1) \<Rightarrow>
          (case bc_remoteMoreAvailableImpl retryTimes remotes s1 of
             (Inl e, s2) \<Rightarrow> Some (Inl e)
           | (Inr False, s2) \<Rightarrow> Some (Inr s2)
           | (Inr True, s2) \<Rightarrow> advanceTo fuel retryTimes remotes v n s2))"


subsection \<open>What the scan of the local data reaches\<close>










lemma dropWhile_exists: "\<exists>e\<in>set xs. \<not> P e \<Longrightarrow> \<exists>e rest. dropWhile P xs = e # rest"
  by (cases "dropWhile P xs") (auto simp: dropWhile_eq_Nil_conv)





text \<open>
  When the local data ends inside the version of the target, below its subsequence, the
  inner loop stops at \<open>end()\<close> and the test after it reads \<open>iter->version\<close> there.
\<close>

lemma advanceTo_reads_end:
  "advanceTo 1 3 remoteTeams 1001 5 (refilled Ordered) = Some (Inl UndefinedBehaviour)"
  by (simp add: example_defs operation_defs scanLocal.simps skipSubsequences.simps
      bc_getImpl_def)



end
